theory Spec2Isabelle
  imports Main "HOL-Library.Finite_Map"
begin

section \<open>JavaScript values\<close>

text \<open>
  Tool arguments, workflows and response bodies are loosely typed (\<open>Record<string, any>\<close>,
  \<open>any\<close>): they are whatever \<open>JSON.parse\<close> produced, plus \<open>undefined\<close> for a
  property that is not there. Numbers are restricted to the integers of magnitude below
  \<open>10^21\<close>, which \<open>String\<close> prints in plain decimal; strings are the bytes of their
  UTF-8 encoding. An object is a finite map from property names to values.
\<close>

datatype jsval =
    JUndefined
  | JNull
  | JBool bool
  | JNum int
  | JStr string
  | JArr "jsval list"
  | JObj "(string, jsval) fmap"

text \<open>Modelled from the spec: the class \<open>N8nApiError\<close> of \<open>errors/index.ts\<close> is not part
  of the sources. The spec: a single normalized error kind carrying an HTTP status (when
  available) and a descriptive message; the constructor calls in the sources pass the
  message only. The other things a \<open>throw\<close> can carry: \<open>AxiosError\<close> is the rejection
  of an HTTP request, \<open>TypeError\<close> a failed property read or call, \<open>JsError\<close> a plain
  \<open>new Error(message)\<close>, \<open>Thrown\<close> any value that is not an \<open>Error\<close> instance.\<close>

datatype thrown =
    N8nApiError string "nat option"
  | AxiosError string "nat option"
  | TypeError string
  | JsError string
  | Thrown jsval

text \<open>Sequencing of steps that can throw: the first throw ends the run.\<close>

fun then_do :: "thrown + 'a \<Rightarrow> ('a \<Rightarrow> thrown + 'b) \<Rightarrow> thrown + 'b" where
  "then_do (Inl e) f = Inl e"
| "then_do (Inr v) f = f v"

text \<open>The double quote and the single quote.\<close>

definition dq :: string where
  "dq = [CHR 0x22]"

definition sq :: string where
  "sq = [CHR 0x27]"

text \<open>The character U+2192 (rightwards arrow) of the change summary, in UTF-8.\<close>

definition arrow :: string where
  "arrow = [CHR 0xE2, CHR 0x86, CHR 0x92]"

text \<open>The decimal digits of a natural number.\<close>

fun digits :: "nat \<Rightarrow> string" where
  "digits n =
     (if n < 10 then [''0123456789'' ! n]
      else digits (n div 10) @ [''0123456789'' ! (n mod 10)])"

text \<open>\<open>Array.prototype.join\<close> on strings.\<close>

fun join :: "string \<Rightarrow> string list \<Rightarrow> string" where
  "join sep [] = []"
| "join sep [x] = x"
| "join sep (x # y # ys) = x @ sep @ join sep (y # ys)"

text \<open>\<open>String(v)\<close>, which is also what a template literal \<open>`${v}`\<close> inserts. Inside
  \<open>Array.prototype.join\<close> the elements \<open>null\<close> and \<open>undefined\<close> become the empty
  string.\<close>

primrec to_string :: "jsval \<Rightarrow> string" where
  "to_string JUndefined = ''undefined''"
| "to_string JNull = ''null''"
| "to_string (JBool b) = (if b then ''true'' else ''false'')"
| "to_string (JNum i) = (if i < 0 then ''-'' @ digits (nat (- i)) else digits (nat i))"
| "to_string (JStr s) = s"
| "to_string (JArr xs) =
     join '','' (map (\<lambda>v. if v = JUndefined \<or> v = JNull then [] else to_string v) xs)"
| "to_string (JObj m) = ''[object Object]''"

text \<open>Truthiness: what \<open>!v\<close>, \<open>v && ...\<close> and \<open>v || ...\<close> test.\<close>

fun truthy :: "jsval \<Rightarrow> bool" where
  "truthy JUndefined = False"
| "truthy JNull = False"
| "truthy (JBool b) = b"
| "truthy (JNum i) = (i \<noteq> 0)"
| "truthy (JStr s) = (s \<noteq> [])"
| "truthy (JArr xs) = True"
| "truthy (JObj m) = True"

fun nullish :: "jsval \<Rightarrow> bool" where
  "nullish JUndefined = True"
| "nullish JNull = True"
| "nullish v = False"

fun typeof :: "jsval \<Rightarrow> string" where
  "typeof JUndefined = ''undefined''"
| "typeof JNull = ''object''"
| "typeof (JBool b) = ''boolean''"
| "typeof (JNum i) = ''number''"
| "typeof (JStr s) = ''string''"
| "typeof (JArr xs) = ''object''"
| "typeof (JObj m) = ''object''"

fun isArray :: "jsval \<Rightarrow> bool" where
  "isArray (JArr xs) = True"
| "isArray v = False"

text \<open>\<open>a === b\<close> for two values that come from different JSON documents (the arguments
  of the call and a response body): primitives are compared by value, while an array or an
  object is only ever identical to itself, so two of them from different documents are
  never equal.\<close>

fun strict_eq :: "jsval \<Rightarrow> jsval \<Rightarrow> bool" where
  "strict_eq JUndefined JUndefined = True"
| "strict_eq JNull JNull = True"
| "strict_eq (JBool a) (JBool b) = (a = b)"
| "strict_eq (JNum a) (JNum b) = (a = b)"
| "strict_eq (JStr a) (JStr b) = (a = b)"
| "strict_eq a b = False"

text \<open>Reading a property \<open>v.k\<close>. None of the names the sources read (\<open>name\<close>,
  \<open>newName\<close>, \<open>nodes\<close>, \<open>connections\<close>, \<open>settings\<close>, \<open>active\<close>, \<open>tags\<close>,
  \<open>id\<close>, \<open>data\<close>) is a built-in property of a string, number, boolean or array, so
  on those the read gives \<open>undefined\<close>.\<close>

fun jsprop :: "jsval \<Rightarrow> string \<Rightarrow> jsval" where
  "jsprop (JObj m) k = (case fmlookup m k of None \<Rightarrow> JUndefined | Some v \<Rightarrow> v)"
| "jsprop v k = JUndefined"

text \<open>The same read where it can throw: on \<open>null\<close> and \<open>undefined\<close> it is a
  \<open>TypeError\<close> (the message is V8's).\<close>

definition prop_get :: "jsval \<Rightarrow> string \<Rightarrow> thrown + jsval" where
  "prop_get v k =
     (if nullish v
      then Inl (TypeError (''Cannot read properties of '' @ to_string v
                  @ '' (reading '' @ sq @ k @ sq @ '')''))
      else Inr (jsprop v k))"

text \<open>The own enumerable properties that an object spread \<open>{...v}\<close> copies: those of an
  object; the indices of an array or of a string (one character each, for ASCII text);
  nothing for \<open>null\<close>, \<open>undefined\<close>, a number or a boolean.\<close>

fun own_props :: "jsval \<Rightarrow> (string, jsval) fmap" where
  "own_props (JObj m) = m"
| "own_props (JArr xs) = fmap_of_list (zip (map digits [0..<length xs]) xs)"
| "own_props (JStr s) = fmap_of_list (zip (map digits [0..<length s]) (map (\<lambda>c. JStr [c]) s))"
| "own_props v = fmempty"

section \<open>The upstream API and the HTTP requests sent to it\<close>

datatype http_method = GET | POST | PUT | DELETE

record http_request =
  meth :: http_method
  url :: string
  body :: "jsval option"

text \<open>axios resolves a request that was answered with a 2xx status (status, decoded body)
  and rejects every other one (message, status when there was a response).\<close>

datatype http_outcome =
    Resolved nat jsval
  | Rejected string "nat option"

text \<open>The upstream platform is an external collaborator: any function from a request and
  its own state to an outcome and a new state. The world of a call is that state and the
  list of the requests issued so far.\<close>

type_synonym 's upstream = "http_request \<Rightarrow> 's \<Rightarrow> http_outcome \<times> 's"

record 's world =
  remote :: 's
  sent :: "http_request list"

definition request :: "'s upstream \<Rightarrow> http_request \<Rightarrow> 's world \<Rightarrow> http_outcome \<times> 's world" where
  "request up r w =
     (case up r (remote w) of
        (out, s') \<Rightarrow> (out, \<lparr>remote = s', sent = sent w @ [r]\<rparr>))"

section \<open>The API client (\<open>N8nApiClient\<close>)\<close>

text \<open>Modelled from the spec: \<open>handleAxiosError\<close> of \<open>errors/index.ts\<close> is not part of
  the sources. The spec: any transport or non-2xx response is caught and re-raised as a
  single normalized error kind carrying an HTTP status (when available) and a descriptive
  message. The descriptive message is taken to be the one the call site passes.\<close>

fun handleAxiosError :: "thrown \<Rightarrow> string \<Rightarrow> thrown" where
  "handleAxiosError (AxiosError m st) msg = N8nApiError msg st"
| "handleAxiosError (N8nApiError m st) msg = N8nApiError msg st"
| "handleAxiosError e msg = N8nApiError msg None"

definition getWorkflows :: "'s upstream \<Rightarrow> 's world \<Rightarrow> (thrown + jsval) \<times> 's world" where
  "getWorkflows up w =
     (case request up \<lparr>meth = GET, url = ''/workflows'', body = None\<rparr> w of
        (Rejected m st, w') \<Rightarrow>
          (Inl (handleAxiosError (AxiosError m st) ''Failed to fetch workflows''), w')
      | (Resolved st d, w') \<Rightarrow>
          (case prop_get d ''data'' of
             Inl e \<Rightarrow> (Inl (handleAxiosError e ''Failed to fetch workflows''), w')
           | Inr v \<Rightarrow> (Inr (if truthy v then v else JArr []), w')))"

definition getExecutions :: "'s upstream \<Rightarrow> 's world \<Rightarrow> (thrown + jsval) \<times> 's world" where
  "getExecutions up w =
     (case request up \<lparr>meth = GET, url = ''/executions'', body = None\<rparr> w of
        (Rejected m st, w') \<Rightarrow>
          (Inl (handleAxiosError (AxiosError m st) ''Failed to fetch executions''), w')
      | (Resolved st d, w') \<Rightarrow>
          (case prop_get d ''data'' of
             Inl e \<Rightarrow> (Inl (handleAxiosError e ''Failed to fetch executions''), w')
           | Inr v \<Rightarrow> (Inr (if truthy v then v else JArr []), w')))"

definition getWorkflow :: "'s upstream \<Rightarrow> jsval \<Rightarrow> 's world \<Rightarrow> (thrown + jsval) \<times> 's world" where
  "getWorkflow up wid w =
     (case request up \<lparr>meth = GET, url = ''/workflows/'' @ to_string wid, body = None\<rparr> w of
        (Rejected m st, w') \<Rightarrow>
          (Inl (handleAxiosError (AxiosError m st) (''Failed to fetch workflow '' @ to_string wid)), w')
      | (Resolved st d, w') \<Rightarrow> (Inr d, w'))"

text \<open>The baseline settings of \<open>createWorkflow\<close>.\<close>

definition default_settings :: "(string, jsval) fmap" where
  "default_settings =
     fmap_of_list
       [(''saveExecutionProgress'', JBool True),
        (''saveManualExecutions'', JBool True),
        (''saveDataErrorExecution'', JStr ''all''),
        (''saveDataSuccessExecution'', JStr ''all''),
        (''executionTimeout'', JNum 3600),
        (''timezone'', JStr ''UTC'')]"

text \<open>\<open>a || b\<close>.\<close>

definition or_else :: "jsval \<Rightarrow> jsval \<Rightarrow> jsval" where
  "or_else a b = (if truthy a then a else b)"

text \<open>The object literal \<open>workflowToCreate\<close>; every read of \<open>workflow\<close> throws when
  \<open>workflow\<close> is \<open>null\<close> or \<open>undefined\<close>.\<close>

definition workflowToCreate :: "jsval \<Rightarrow> thrown + jsval" where
  "workflowToCreate workflow =
     then_do (prop_get workflow ''name'') (\<lambda>name.
     then_do (prop_get workflow ''nodes'') (\<lambda>nodes.
     then_do (prop_get workflow ''connections'') (\<lambda>connections.
     then_do (prop_get workflow ''settings'') (\<lambda>settings.
     then_do (prop_get workflow ''active'') (\<lambda>active.
     then_do (prop_get workflow ''tags'') (\<lambda>tags.
       Inr (JObj (fmap_of_list
         [(''name'', name),
          (''nodes'', or_else nodes (JArr [])),
          (''connections'', or_else connections (JObj fmempty)),
          (''settings'', JObj (fmadd default_settings (own_props settings))),
          (''active'', or_else active (JBool False)),
          (''tags'', or_else tags (JArr []))]))))))))"

definition createWorkflow :: "'s upstream \<Rightarrow> jsval \<Rightarrow> 's world \<Rightarrow> (thrown + jsval) \<times> 's world" where
  "createWorkflow up workflow w =
     (case workflowToCreate workflow of
        Inl e \<Rightarrow> (Inl (handleAxiosError e ''Failed to create workflow''), w)
      | Inr b \<Rightarrow>
          (case request up \<lparr>meth = POST, url = ''/workflows'', body = Some b\<rparr> w of
             (Rejected m st, w') \<Rightarrow>
               (Inl (handleAxiosError (AxiosError m st) ''Failed to create workflow''), w')
           | (Resolved st d, w') \<Rightarrow> (Inr d, w')))"

text \<open>\<open>workflow.k !== undefined ? workflow.k : currentWorkflow.k\<close>.\<close>

definition supplied_or_current :: "jsval \<Rightarrow> jsval \<Rightarrow> string \<Rightarrow> thrown + jsval" where
  "supplied_or_current workflow currentWorkflow k =
     then_do (prop_get workflow k) (\<lambda>v.
       if v \<noteq> JUndefined then Inr v else prop_get currentWorkflow k)"

text \<open>The object literal \<open>updatedWorkflow\<close> of \<open>updateWorkflow\<close>: the spread of the
  fetched workflow first, then the six properties in the order of the source.\<close>

definition updatedWorkflow :: "jsval \<Rightarrow> jsval \<Rightarrow> thrown + jsval" where
  "updatedWorkflow currentWorkflow workflow =
     then_do (supplied_or_current workflow currentWorkflow ''name'') (\<lambda>name.
     then_do (supplied_or_current workflow currentWorkflow ''nodes'') (\<lambda>nodes.
     then_do (supplied_or_current workflow currentWorkflow ''connections'') (\<lambda>connections.
     then_do (prop_get currentWorkflow ''settings'') (\<lambda>cs.
     then_do (prop_get workflow ''settings'') (\<lambda>ws.
     then_do (supplied_or_current workflow currentWorkflow ''active'') (\<lambda>active.
     then_do (supplied_or_current workflow currentWorkflow ''tags'') (\<lambda>tags.
       Inr (JObj (fmadd (own_props currentWorkflow) (fmap_of_list
         [(''name'', name),
          (''nodes'', nodes),
          (''connections'', connections),
          (''settings'', JObj (fmadd (own_props cs) (own_props ws))),
          (''active'', active),
          (''tags'', tags)]))))))))))"

definition updateWorkflow :: "'s upstream \<Rightarrow> jsval \<Rightarrow> jsval \<Rightarrow> 's world \<Rightarrow> (thrown + jsval) \<times> 's world" where
  "updateWorkflow up wid workflow w =
     (case getWorkflow up wid w of
        (Inl e, w1) \<Rightarrow>
          (Inl (handleAxiosError e (''Failed to update workflow '' @ to_string wid)), w1)
      | (Inr currentWorkflow, w1) \<Rightarrow>
          (case updatedWorkflow currentWorkflow workflow of
             Inl e \<Rightarrow> (Inl (handleAxiosError e (''Failed to update workflow '' @ to_string wid)), w1)
           | Inr b \<Rightarrow>
               (case request up \<lparr>meth = PUT, url = ''/workflows/'' @ to_string wid, body = Some b\<rparr> w1 of
                  (Rejected m st, w2) \<Rightarrow>
                    (Inl (handleAxiosError (AxiosError m st)
                            (''Failed to update workflow '' @ to_string wid)), w2)
                | (Resolved st d, w2) \<Rightarrow> (Inr d, w2))))"

section \<open>The tool handlers\<close>

text \<open>Modelled from the spec: the type \<open>ToolCallResult\<close> of \<open>types/index.ts\<close> is not
  part of the sources. The spec: a result envelope is an ordered sequence of content blocks
  (each typed, \<open>{type, text|json}\<close>) plus a boolean error flag. The dispatcher reads
  exactly the properties \<open>content\<close> and \<open>isError\<close>, and builds blocks
  \<open>{type: 'text', text: ...}\<close>.\<close>

datatype content_block =
    TextBlock string
  | JsonBlock jsval

record envelope =
  content :: "content_block list"
  isError :: bool

text \<open>Modelled from the spec: \<open>formatSuccess\<close> of \<open>BaseWorkflowToolHandler\<close>
  (\<open>tools/workflow/base-handler.ts\<close>) is not part of the sources. The spec: on success,
  produce a success envelope (human-readable summary + a structured JSON payload).\<close>

definition formatSuccess :: "jsval \<Rightarrow> string \<Rightarrow> envelope" where
  "formatSuccess data message = \<lparr>content = [TextBlock message, JsonBlock data], isError = False\<rparr>"

text \<open>The \<open>message\<close> property of a thrown \<open>Error\<close>. For a thrown value that is not an
  \<open>Error\<close> the text is its string conversion; the handler below throws none.\<close>

fun message_of :: "thrown \<Rightarrow> string" where
  "message_of (N8nApiError m st) = m"
| "message_of (AxiosError m st) = m"
| "message_of (TypeError m) = m"
| "message_of (JsError m) = m"
| "message_of (Thrown v) = to_string v"

text \<open>Modelled from the spec: \<open>handleExecution\<close> of \<open>BaseWorkflowToolHandler\<close> is not
  part of the sources. The spec: wrap the operation-specific logic in a single try/catch;
  on any thrown error, produce an error envelope whose text is the error's message.\<close>

definition handleExecution ::
  "(jsval \<Rightarrow> 's world \<Rightarrow> (thrown + envelope) \<times> 's world) \<Rightarrow> jsval \<Rightarrow> 's world \<Rightarrow> envelope \<times> 's world" where
  "handleExecution handler args w =
     (case handler args w of
        (Inr result, w') \<Rightarrow> (result, w')
      | (Inl error, w') \<Rightarrow> (\<lparr>content = [TextBlock (message_of error)], isError = True\<rparr>, w'))"

text \<open>\<open>workflows.find(w => w.name === name)\<close>: the first element whose name is the given
  one, \<open>undefined\<close> when there is none; reading \<open>w.name\<close> throws on a \<open>null\<close>
  element, and a value that is not an array has no \<open>find\<close>.\<close>

fun find_named :: "jsval list \<Rightarrow> jsval \<Rightarrow> thrown + jsval" where
  "find_named [] name = Inr JUndefined"
| "find_named (w # ws) name =
     then_do (prop_get w ''name'') (\<lambda>n. if strict_eq n name then Inr w else find_named ws name)"

fun find_workflow :: "jsval \<Rightarrow> jsval \<Rightarrow> thrown + jsval" where
  "find_workflow (JArr ws) name = find_named ws name"
| "find_workflow v name = Inl (TypeError ''workflows.find is not a function'')"

text \<open>\<open>if (v !== undefined) workflowData.k = v\<close>.\<close>

definition assign_if_defined :: "string \<Rightarrow> jsval \<Rightarrow> (string, jsval) fmap \<Rightarrow> (string, jsval) fmap" where
  "assign_if_defined k v m = (if v \<noteq> JUndefined then fmupd k v m else m)"

text \<open>The local \<open>workflowData\<close> of the update handler: a copy of the found workflow in
  which the supplied fields are overwritten.\<close>

definition workflowData :: "jsval \<Rightarrow> jsval \<Rightarrow> jsval \<Rightarrow> jsval \<Rightarrow> jsval \<Rightarrow> jsval \<Rightarrow> jsval" where
  "workflowData workflow newName nodes connections active tags =
     JObj (assign_if_defined ''tags'' tags
          (assign_if_defined ''active'' active
          (assign_if_defined ''connections'' connections
          (assign_if_defined ''nodes'' nodes
          (assign_if_defined ''name'' newName (own_props workflow))))))"

text \<open>The local \<open>changesArray\<close> of the update handler, from the found workflow and the
  arguments \<open>newName\<close>, \<open>active\<close>, \<open>nodes\<close>, \<open>connections\<close>, \<open>tags\<close>.\<close>

definition changesArray :: "jsval \<Rightarrow> jsval \<Rightarrow> jsval \<Rightarrow> jsval \<Rightarrow> jsval \<Rightarrow> jsval \<Rightarrow> string list" where
  "changesArray workflow newName active nodes connections tags =
     (if newName \<noteq> JUndefined \<and> \<not> strict_eq newName (jsprop workflow ''name'')
      then [''name: '' @ dq @ to_string (jsprop workflow ''name'') @ dq @ '' '' @ arrow @ '' ''
              @ dq @ to_string newName @ dq]
      else [])
     @ (if active \<noteq> JUndefined \<and> \<not> strict_eq active (jsprop workflow ''active'')
        then [''active: '' @ to_string (jsprop workflow ''active'') @ '' '' @ arrow @ '' ''
                @ to_string active]
        else [])
     @ (if nodes \<noteq> JUndefined then [''nodes updated''] else [])
     @ (if connections \<noteq> JUndefined then [''connections updated''] else [])
     @ (if tags \<noteq> JUndefined then [''tags updated''] else [])"

definition changesSummary :: "string list \<Rightarrow> string" where
  "changesSummary changes =
     (if length changes > 0 then ''Changes: '' @ join '', '' changes else ''No changes were made'')"

text \<open>The function that \<open>UpdateWorkflowHandler.execute\<close> passes to \<open>handleExecution\<close>.\<close>

definition update_steps :: "'s upstream \<Rightarrow> jsval \<Rightarrow> 's world \<Rightarrow> (thrown + envelope) \<times> 's world" where
  "update_steps up args w =
     (if nullish args
      then (Inl (TypeError (''Cannot destructure '' @ sq @ ''args'' @ sq @ '' as it is ''
                   @ to_string args @ ''.'')), w)
      else
        let name = jsprop args ''name''; newName = jsprop args ''newName'';
            nodes = jsprop args ''nodes''; connections = jsprop args ''connections'';
            active = jsprop args ''active''; tags = jsprop args ''tags''
        in
        if \<not> truthy name
        then (Inl (N8nApiError ''Missing required parameter: name'' None), w)
        else if truthy nodes \<and> \<not> isArray nodes
        then (Inl (N8nApiError (''Parameter '' @ dq @ ''nodes'' @ dq @ '' must be an array'') None), w)
        else if truthy connections \<and> typeof connections \<noteq> ''object''
        then (Inl (N8nApiError (''Parameter '' @ dq @ ''connections'' @ dq @ '' must be an object'') None), w)
        else
          (case getWorkflows up w of
             (Inl e, w1) \<Rightarrow> (Inl e, w1)
           | (Inr workflows, w1) \<Rightarrow>
               (case find_workflow workflows name of
                  Inl e \<Rightarrow> (Inl e, w1)
                | Inr workflow \<Rightarrow>
                    if \<not> truthy workflow
                    then (Inl (N8nApiError (''Workflow with name '' @ dq @ to_string name @ dq
                                  @ '' not found'') None), w1)
                    else
                      (case updateWorkflow up (jsprop workflow ''id'')
                              (workflowData workflow newName nodes connections active tags) w1 of
                         (Inl e, w2) \<Rightarrow> (Inl e, w2)
                       | (Inr updated, w2) \<Rightarrow>
                           (case then_do (prop_get updated ''id'') (\<lambda>uid.
                                 then_do (prop_get updated ''name'') (\<lambda>uname.
                                 then_do (prop_get updated ''active'') (\<lambda>uactive.
                                   Inr (JObj (fmap_of_list
                                     [(''id'', uid), (''name'', uname), (''active'', uactive)]))))) of
                              Inl e \<Rightarrow> (Inl e, w2)
                            | Inr payload \<Rightarrow>
                                (Inr (formatSuccess payload
                                        (''Workflow updated successfully. ''
                                           @ changesSummary
                                               (changesArray workflow newName active nodes
                                                  connections tags))), w2))))))"

definition execute :: "'s upstream \<Rightarrow> jsval \<Rightarrow> 's world \<Rightarrow> envelope \<times> 's world" where
  "execute up args w = handleExecution (update_steps up) args w"

section \<open>The dispatcher\<close>

text \<open>A registered handler object: its \<open>execute\<close>, which the dispatcher does not trust
  not to throw. The registry \<open>toolHandlers\<close> is a map from tool names to handlers.\<close>

type_synonym 's handler = "jsval \<Rightarrow> 's world \<Rightarrow> (thrown + envelope) \<times> 's world"

text \<open>\<open>error instanceof Error\<close>.\<close>

fun instanceof_Error :: "thrown \<Rightarrow> bool" where
  "instanceof_Error (Thrown v) = False"
| "instanceof_Error e = True"

text \<open>The \<open>try\<close> block of the tool call request handler.\<close>

definition call_tool_try ::
  "(string \<rightharpoonup> 's handler) \<Rightarrow> string \<Rightarrow> jsval \<Rightarrow> 's world \<Rightarrow> (thrown + envelope) \<times> 's world" where
  "call_tool_try toolHandlers toolName args w =
     (case toolHandlers toolName of
        None \<Rightarrow> (Inl (JsError (''Unknown tool: '' @ toolName)), w)
      | Some handler \<Rightarrow>
          (case handler args w of
             (Inl e, w') \<Rightarrow> (Inl e, w')
           | (Inr result, w') \<Rightarrow> (Inr \<lparr>content = content result, isError = isError result\<rparr>, w')))"

text \<open>The whole request handler: \<open>try\<close> and \<open>catch\<close>. Its result is a sum as well, so
  that "it throws" is a value it could have.\<close>

definition call_tool ::
  "(string \<rightharpoonup> 's handler) \<Rightarrow> string \<Rightarrow> jsval \<Rightarrow> 's world \<Rightarrow> (thrown + envelope) \<times> 's world" where
  "call_tool toolHandlers toolName arguments w =
     (case call_tool_try toolHandlers toolName (or_else arguments (JObj fmempty)) w of
        (Inr result, w') \<Rightarrow> (Inr result, w')
      | (Inl error, w') \<Rightarrow>
          (Inr \<lparr>content =
                  [TextBlock (''Error: '' @ (if instanceof_Error error then message_of error
                                            else ''Unknown error''))],
                isError = True\<rparr>, w'))"

text \<open>The update handler as it is registered under \<open>update_workflow\<close>.\<close>

definition UpdateWorkflowHandler :: "'s upstream \<Rightarrow> 's handler" where
  "UpdateWorkflowHandler up args w = (case execute up args w of (env, w') \<Rightarrow> (Inr env, w'))"

section \<open>Concrete inputs for the examples\<close>

definition test_workflow :: jsval where
  "test_workflow =
     JObj (fmap_of_list
       [(''id'', JStr ''w1''), (''name'', JStr ''Test''), (''active'', JBool False),
        (''nodes'', JArr []), (''connections'', JObj fmempty),
        (''settings'', JObj (fmap_of_list [(''timezone'', JStr ''UTC'')])),
        (''tags'', JArr [])])"

text \<open>An upstream that stores \<open>test_workflow\<close>: it lists it, serves it under any id, and
  answers a request that has a body with that body.\<close>

definition stub_upstream :: "unit upstream" where
  "stub_upstream r s =
     (case body r of
        Some b \<Rightarrow> (Resolved 200 b, s)
      | None \<Rightarrow>
          if url r = ''/workflows''
          then (Resolved 200 (JObj (fmap_of_list [(''data'', JArr [test_workflow])])), s)
          else (Resolved 200 test_workflow, s))"

definition start :: "unit world" where
  "start = \<lparr>remote = (), sent = []\<rparr>"

text \<open>A handler that throws a value that is not an \<open>Error\<close>.\<close>

definition throwing_handler :: "unit handler" where
  "throwing_handler args w = (Inl (Thrown JNull), w)"

text \<open>An upstream that answers every request in the same way.\<close>

definition always :: "http_outcome \<Rightarrow> unit upstream" where
  "always out r s = (out, s)"

section \<open>The dispatcher never throws\<close>

text \<open>
  C1. For every registry, every tool name and every argument value: when the name is not
  in the registry, \<open>call_tool\<close> returns an envelope with \<open>isError = true\<close> whose text is
  \<open>Error: Unknown tool: \<close> followed by the name, and nothing was sent upstream; in every
  case \<open>call_tool\<close> returns an envelope and does not throw; and when the registered
  handler throws, what it threw is turned into an envelope with \<open>isError = true\<close>.
\<close>

theorem call_tool_unknown_tool:
  "(toolHandlers toolName = None \<longrightarrow>
      call_tool toolHandlers toolName arguments w =
        (Inr \<lparr>content = [TextBlock (''Error: Unknown tool: '' @ toolName)], isError = True\<rparr>, w))
   \<and> (\<exists>env w'. call_tool toolHandlers toolName arguments w = (Inr env, w'))
   \<and> (\<forall>handler e w'. toolHandlers toolName = Some handler
          \<and> handler (or_else arguments (JObj fmempty)) w = (Inl e, w')
        \<longrightarrow> (\<exists>t. call_tool toolHandlers toolName arguments w =
               (Inr \<lparr>content = [TextBlock (''Error: '' @ t)], isError = True\<rparr>, w')))"
  by (auto simp add: call_tool_def call_tool_try_def split: prod.splits sum.splits option.splits)

theorem call_tool_unknown_tool_witness:
  "call_tool [''update_workflow'' \<mapsto> UpdateWorkflowHandler stub_upstream] ''drop_database''
       JUndefined start =
     (Inr \<lparr>content = [TextBlock ''Error: Unknown tool: drop_database''], isError = True\<rparr>, start)
   \<and> (\<exists>t. call_tool [''run_webhook'' \<mapsto> throwing_handler] ''run_webhook'' JUndefined start =
               (Inr \<lparr>content = [TextBlock (''Error: '' @ t)], isError = True\<rparr>, start))"
  using call_tool_unknown_tool
          [of "[''update_workflow'' \<mapsto> UpdateWorkflowHandler stub_upstream]"
              "''drop_database''" JUndefined start]
        call_tool_unknown_tool
          [of "[''run_webhook'' \<mapsto> throwing_handler]" "''run_webhook''" JUndefined start]
  by (simp add: throwing_handler_def or_else_def)

section \<open>The required argument of \<open>update_workflow\<close>\<close>

text \<open>
  C5. For every argument mapping without \<open>name\<close>, the steps of \<open>update_workflow\<close>
  throw the error \<open>Missing required parameter: name\<close>, the handler returns the error
  envelope with that text, and the world is as it was: no request was sent upstream.
\<close>

theorem update_workflow_missing_name:
  "fmlookup m ''name'' = None \<Longrightarrow>
     update_steps up (JObj m) w = (Inl (N8nApiError ''Missing required parameter: name'' None), w)
     \<and> execute up (JObj m) w =
       (\<lparr>content = [TextBlock ''Missing required parameter: name''], isError = True\<rparr>, w)
     \<and> sent (snd (execute up (JObj m) w)) = sent w"
  by (simp add: execute_def handleExecution_def update_steps_def)

theorem update_workflow_missing_name_witness:
  "execute stub_upstream (JObj (fmap_of_list [(''active'', JBool True)])) start =
     (\<lparr>content = [TextBlock ''Missing required parameter: name''], isError = True\<rparr>, start)
   \<and> sent (snd (execute stub_upstream (JObj (fmap_of_list [(''active'', JBool True)])) start)) = []"
  using update_workflow_missing_name
          [of "fmap_of_list [(''active'', JBool True)]" stub_upstream start]
  by (simp add: fmlookup_of_list start_def)

text \<open>
  C10. For every argument mapping whose \<open>name\<close> is the empty string, \<open>update_workflow\<close>
  answers as for an absent name: the thrown error and the error envelope are
  \<open>Missing required parameter: name\<close>, and no request was sent upstream.
\<close>

theorem update_workflow_empty_name:
  "fmlookup m ''name'' = Some (JStr '''') \<Longrightarrow>
     update_steps up (JObj m) w = (Inl (N8nApiError ''Missing required parameter: name'' None), w)
     \<and> execute up (JObj m) w =
       (\<lparr>content = [TextBlock ''Missing required parameter: name''], isError = True\<rparr>, w)
     \<and> sent (snd (execute up (JObj m) w)) = sent w"
  by (simp add: execute_def handleExecution_def update_steps_def)

theorem update_workflow_empty_name_witness:
  "execute stub_upstream (JObj (fmap_of_list [(''name'', JStr ''''), (''active'', JBool True)])) start =
     (\<lparr>content = [TextBlock ''Missing required parameter: name''], isError = True\<rparr>, start)
   \<and> sent (snd (execute stub_upstream
                   (JObj (fmap_of_list [(''name'', JStr ''''), (''active'', JBool True)])) start)) = []"
  using update_workflow_empty_name
          [of "fmap_of_list [(''name'', JStr ''''), (''active'', JBool True)]" stub_upstream start]
  by (simp add: fmlookup_of_list start_def)

section \<open>Reading properties and sending requests\<close>

lemma prop_get_ok: "\<not> nullish v \<Longrightarrow> prop_get v k = Inr (jsprop v k)"
  by (simp add: prop_get_def)

lemma prop_get_obj: "prop_get (JObj m) k = Inr (jsprop (JObj m) k)"
  by (simp add: prop_get_def)

lemma fmlookup_fmadd_case:
  "fmlookup (fmadd a b) k = (case fmlookup b k of Some v \<Rightarrow> Some v | None \<Rightarrow> fmlookup a k)"
  by (cases "fmlookup b k") (auto simp add: fmlookup_dom_iff)

lemma request_eq:
  "request up r w = (fst (up r (remote w)), \<lparr>remote = snd (up r (remote w)), sent = sent w @ [r]\<rparr>)"
  by (simp add: request_def split: prod.splits)

section \<open>The list methods of the client\<close>

text \<open>
  C9, as amended. For \<open>getWorkflows\<close> and \<open>getExecutions\<close>: when the request is
  answered with a body that is not \<open>null\<close> and whose \<open>data\<close> property is absent or
  falsy (\<open>undefined\<close>, \<open>null\<close>, \<open>false\<close>, \<open>0\<close>, the empty string), the method
  returns the empty array.
\<close>

theorem list_methods_default:
  assumes "\<not> nullish d" and "\<not> truthy (jsprop d ''data'')"
  shows "(up \<lparr>meth = GET, url = ''/workflows'', body = None\<rparr> (remote w) = (Resolved st d, s')
            \<longrightarrow> fst (getWorkflows up w) = Inr (JArr []))
       \<and> (up \<lparr>meth = GET, url = ''/executions'', body = None\<rparr> (remote w) = (Resolved st d, s')
            \<longrightarrow> fst (getExecutions up w) = Inr (JArr []))"
  using assms by (simp add: getWorkflows_def getExecutions_def request_def prop_get_ok)

theorem list_methods_default_witness:
  "fst (getWorkflows (always (Resolved 200 (JObj (fmap_of_list [(''data'', JNull)])))) start) = Inr (JArr [])
   \<and> fst (getExecutions (always (Resolved 200 (JObj (fmap_of_list [(''data'', JNull)])))) start) = Inr (JArr [])"
  using list_methods_default [of "JObj (fmap_of_list [(''data'', JNull)])"
      "always (Resolved 200 (JObj (fmap_of_list [(''data'', JNull)])))" start 200 "()"]
  by (simp add: always_def fmlookup_of_list)

text \<open>
  C9 as stated fails: a \<open>data\<close> property that is truthy and not a list is returned as
  it is. Here the body is \<open>{"data": "oops"}\<close> and \<open>getWorkflows\<close> returns the string.
\<close>

theorem list_methods_nonlist_counterexample:
  "fst (getWorkflows (always (Resolved 200 (JObj (fmap_of_list [(''data'', JStr ''oops'')])))) start)
     = Inr (JStr ''oops'')"
  by (simp add: getWorkflows_def request_def always_def prop_get_def fmlookup_of_list)

section \<open>Creating a workflow\<close>

lemma workflowToCreate_obj:
  "workflowToCreate (JObj p) =
     Inr (JObj (fmap_of_list
         [(''name'', jsprop (JObj p) ''name''),
          (''nodes'', or_else (jsprop (JObj p) ''nodes'') (JArr [])),
          (''connections'', or_else (jsprop (JObj p) ''connections'') (JObj fmempty)),
          (''settings'', JObj (fmadd default_settings (own_props (jsprop (JObj p) ''settings'')))),
          (''active'', or_else (jsprop (JObj p) ''active'') (JBool False)),
          (''tags'', or_else (jsprop (JObj p) ''tags'') (JArr []))]))"
  unfolding workflowToCreate_def prop_get_obj then_do.simps ..

lemma createWorkflow_sent:
  "workflowToCreate workflow = Inr b \<Longrightarrow>
   sent (snd (createWorkflow up workflow w)) = sent w @ [\<lparr>meth = POST, url = ''/workflows'', body = Some b\<rparr>]"
  by (auto simp add: createWorkflow_def request_def split: prod.splits http_outcome.splits)

lemma default_settings_lookup:
  "fmlookup default_settings k =
     map_of [(''saveExecutionProgress'', JBool True),
             (''saveManualExecutions'', JBool True),
             (''saveDataErrorExecution'', JStr ''all''),
             (''saveDataSuccessExecution'', JStr ''all''),
             (''executionTimeout'', JNum 3600),
             (''timezone'', JStr ''UTC'')] k"
  unfolding default_settings_def fmlookup_of_list ..

text \<open>
  C4. For every payload object, \<open>createWorkflow\<close> sends one \<open>POST /workflows\<close> whose
  body has exactly the properties \<open>name\<close>, \<open>nodes\<close>, \<open>connections\<close>, \<open>settings\<close>,
  \<open>active\<close> and \<open>tags\<close>. Its \<open>settings\<close> are the baseline
  (\<open>saveExecutionProgress: true\<close>, \<open>saveManualExecutions: true\<close>,
  \<open>saveDataErrorExecution: "all"\<close>, \<open>saveDataSuccessExecution: "all"\<close>,
  \<open>executionTimeout: 3600\<close>, \<open>timezone: "UTC"\<close>) overridden by the caller's settings, key
  by key. Its \<open>name\<close> is the payload's; its \<open>nodes\<close>, \<open>connections\<close>, \<open>tags\<close> and
  \<open>active\<close> are the payload's value when that is truthy, and otherwise the empty array,
  the empty object, the empty array and \<open>false\<close>: so they are the defaults when the
  payload has none, and the caller's value passes through unchanged when it supplies one.
  Without \<open>settings\<close> in the payload the settings sent include
  \<open>saveExecutionProgress: true\<close> and \<open>timezone: "UTC"\<close>.
\<close>

theorem createWorkflow_defaults:
  "\<exists>b. sent (snd (createWorkflow up (JObj p) w))
          = sent w @ [\<lparr>meth = POST, url = ''/workflows'', body = Some (JObj b)\<rparr>]
     \<and> fmlookup b ''settings'' = Some (JObj (fmadd default_settings (own_props (jsprop (JObj p) ''settings''))))
     \<and> (\<forall>cs. fmlookup p ''settings'' = Some (JObj cs) \<longrightarrow>
          (\<exists>ms. fmlookup b ''settings'' = Some (JObj ms)
             \<and> (\<forall>k. fmlookup ms k = (case fmlookup cs k of Some v \<Rightarrow> Some v | None \<Rightarrow>
                  map_of [(''saveExecutionProgress'', JBool True),
                          (''saveManualExecutions'', JBool True),
                          (''saveDataErrorExecution'', JStr ''all''),
                          (''saveDataSuccessExecution'', JStr ''all''),
                          (''executionTimeout'', JNum 3600),
                          (''timezone'', JStr ''UTC'')] k))))
     \<and> (fmlookup p ''nodes'' = None \<longrightarrow> fmlookup b ''nodes'' = Some (JArr []))
     \<and> (fmlookup p ''connections'' = None \<longrightarrow> fmlookup b ''connections'' = Some (JObj fmempty))
     \<and> (fmlookup p ''tags'' = None \<longrightarrow> fmlookup b ''tags'' = Some (JArr []))
     \<and> (fmlookup p ''settings'' = None \<longrightarrow>
          (\<exists>ms. fmlookup b ''settings'' = Some (JObj ms)
             \<and> fmlookup ms ''saveExecutionProgress'' = Some (JBool True)
             \<and> fmlookup ms ''timezone'' = Some (JStr ''UTC'')))
     \<and> fmlookup b ''name'' = Some (jsprop (JObj p) ''name'')
     \<and> fmlookup b ''nodes''
           = Some (if truthy (jsprop (JObj p) ''nodes'') then jsprop (JObj p) ''nodes'' else JArr [])
     \<and> fmlookup b ''connections''
           = Some (if truthy (jsprop (JObj p) ''connections'') then jsprop (JObj p) ''connections''
                   else JObj fmempty)
     \<and> fmlookup b ''tags''
           = Some (if truthy (jsprop (JObj p) ''tags'') then jsprop (JObj p) ''tags'' else JArr [])
     \<and> fmlookup b ''active''
           = Some (if truthy (jsprop (JObj p) ''active'') then jsprop (JObj p) ''active''
                   else JBool False)
     \<and> (\<forall>k. k \<notin> {''name'', ''nodes'', ''connections'', ''settings'', ''active'', ''tags''}
            \<longrightarrow> fmlookup b k = None)"
proof -
  define ms where "ms = fmadd default_settings (own_props (jsprop (JObj p) ''settings''))"
  define b where "b = fmap_of_list
         [(''name'', jsprop (JObj p) ''name''),
          (''nodes'', or_else (jsprop (JObj p) ''nodes'') (JArr [])),
          (''connections'', or_else (jsprop (JObj p) ''connections'') (JObj fmempty)),
          (''settings'', JObj ms),
          (''active'', or_else (jsprop (JObj p) ''active'') (JBool False)),
          (''tags'', or_else (jsprop (JObj p) ''tags'') (JArr []))]"
  have made: "workflowToCreate (JObj p) = Inr (JObj b)"
    unfolding b_def ms_def by (rule workflowToCreate_obj)
  have posted: "sent (snd (createWorkflow up (JObj p) w))
          = sent w @ [\<lparr>meth = POST, url = ''/workflows'', body = Some (JObj b)\<rparr>]"
    by (rule createWorkflow_sent [OF made])
  have settings: "fmlookup b ''settings'' = Some (JObj ms)"
    by (simp add: b_def fmlookup_of_list)
  have merged: "fmlookup ms k = (case fmlookup cs k of Some v \<Rightarrow> Some v | None \<Rightarrow>
                  map_of [(''saveExecutionProgress'', JBool True),
                          (''saveManualExecutions'', JBool True),
                          (''saveDataErrorExecution'', JStr ''all''),
                          (''saveDataSuccessExecution'', JStr ''all''),
                          (''executionTimeout'', JNum 3600),
                          (''timezone'', JStr ''UTC'')] k)"
    if "fmlookup p ''settings'' = Some (JObj cs)" for cs k
    using that unfolding ms_def fmlookup_fmadd_case default_settings_lookup by simp
  have nodes: "fmlookup b ''nodes'' = Some (JArr [])" if "fmlookup p ''nodes'' = None"
    using that by (simp add: b_def fmlookup_of_list or_else_def)
  have connections: "fmlookup b ''connections'' = Some (JObj fmempty)"
    if "fmlookup p ''connections'' = None"
    using that by (simp add: b_def fmlookup_of_list or_else_def)
  have tags: "fmlookup b ''tags'' = Some (JArr [])" if "fmlookup p ''tags'' = None"
    using that by (simp add: b_def fmlookup_of_list or_else_def)
  have omitted: "fmlookup ms ''saveExecutionProgress'' = Some (JBool True)
             \<and> fmlookup ms ''timezone'' = Some (JStr ''UTC'')"
    if "fmlookup p ''settings'' = None"
    using that unfolding ms_def fmlookup_fmadd_case default_settings_lookup by simp
  have name': "fmlookup b ''name'' = Some (jsprop (JObj p) ''name'')"
    unfolding b_def fmlookup_of_list by simp
  have nodes': "fmlookup b ''nodes''
           = Some (if truthy (jsprop (JObj p) ''nodes'') then jsprop (JObj p) ''nodes'' else JArr [])"
    unfolding b_def fmlookup_of_list or_else_def by simp
  have connections': "fmlookup b ''connections''
           = Some (if truthy (jsprop (JObj p) ''connections'') then jsprop (JObj p) ''connections''
                   else JObj fmempty)"
    unfolding b_def fmlookup_of_list or_else_def by simp
  have tags': "fmlookup b ''tags''
           = Some (if truthy (jsprop (JObj p) ''tags'') then jsprop (JObj p) ''tags'' else JArr [])"
    unfolding b_def fmlookup_of_list or_else_def by simp
  have active': "fmlookup b ''active''
           = Some (if truthy (jsprop (JObj p) ''active'') then jsprop (JObj p) ''active''
                   else JBool False)"
    unfolding b_def fmlookup_of_list or_else_def by simp
  have only: "fmlookup b k = None"
    if "k \<notin> {''name'', ''nodes'', ''connections'', ''settings'', ''active'', ''tags''}" for k
    using that unfolding b_def fmlookup_of_list by simp
  show ?thesis
    apply (rule exI [of _ b])
    apply (intro conjI allI impI)
    subgoal by (rule posted)
    subgoal using settings by (simp add: ms_def)
    subgoal for cs using settings merged [of cs] by blast
    subgoal by (rule nodes)
    subgoal by (rule connections)
    subgoal by (rule tags)
    subgoal using settings omitted by blast
    subgoal by (rule name')
    subgoal by (rule nodes')
    subgoal by (rule connections')
    subgoal by (rule tags')
    subgoal by (rule active')
    subgoal for k by (rule only)
    done
qed

theorem createWorkflow_defaults_witness:
  "(\<exists>b. sent (snd (createWorkflow stub_upstream (JObj (fmap_of_list [(''name'', JStr ''New'')])) start))
          = [\<lparr>meth = POST, url = ''/workflows'', body = Some (JObj b)\<rparr>]
     \<and> fmlookup b ''name'' = Some (JStr ''New'')
     \<and> fmlookup b ''nodes'' = Some (JArr [])
     \<and> fmlookup b ''connections'' = Some (JObj fmempty)
     \<and> fmlookup b ''tags'' = Some (JArr [])
     \<and> fmlookup b ''active'' = Some (JBool False)
     \<and> (\<exists>ms. fmlookup b ''settings'' = Some (JObj ms)
             \<and> fmlookup ms ''saveExecutionProgress'' = Some (JBool True)
             \<and> fmlookup ms ''timezone'' = Some (JStr ''UTC'')))
   \<and> (\<exists>b. sent (snd (createWorkflow stub_upstream
             (JObj (fmap_of_list
                [(''name'', JStr ''Nightly''),
                 (''nodes'', JArr [JObj (fmap_of_list [(''name'', JStr ''Schedule Trigger'')])]),
                 (''connections'', JObj (fmap_of_list [(''Schedule Trigger'', JArr [])])),
                 (''tags'', JArr [JStr ''prod'']),
                 (''active'', JBool True),
                 (''settings'', JObj (fmap_of_list
                    [(''timezone'', JStr ''Europe/Berlin''), (''executionOrder'', JStr ''v1'')]))]))
             start))
          = [\<lparr>meth = POST, url = ''/workflows'', body = Some (JObj b)\<rparr>]
     \<and> fmlookup b ''name'' = Some (JStr ''Nightly'')
     \<and> fmlookup b ''nodes'' = Some (JArr [JObj (fmap_of_list [(''name'', JStr ''Schedule Trigger'')])])
     \<and> fmlookup b ''connections'' = Some (JObj (fmap_of_list [(''Schedule Trigger'', JArr [])]))
     \<and> fmlookup b ''tags'' = Some (JArr [JStr ''prod''])
     \<and> fmlookup b ''active'' = Some (JBool True)
     \<and> fmlookup b ''id'' = None
     \<and> (\<exists>ms. fmlookup b ''settings'' = Some (JObj ms)
             \<and> fmlookup ms ''timezone'' = Some (JStr ''Europe/Berlin'')
             \<and> fmlookup ms ''executionOrder'' = Some (JStr ''v1'')
             \<and> fmlookup ms ''saveExecutionProgress'' = Some (JBool True)
             \<and> fmlookup ms ''executionTimeout'' = Some (JNum 3600)))"
proof (rule conjI)
  let ?p = "fmap_of_list [(''name'', JStr ''New'')]"
  from createWorkflow_defaults [of stub_upstream ?p start]
  obtain b where posted: "sent (snd (createWorkflow stub_upstream (JObj ?p) start))
          = sent start @ [\<lparr>meth = POST, url = ''/workflows'', body = Some (JObj b)\<rparr>]"
    and settings: "fmlookup b ''settings''
          = Some (JObj (fmadd default_settings (own_props (jsprop (JObj ?p) ''settings''))))"
    and name: "fmlookup b ''name'' = Some (jsprop (JObj ?p) ''name'')"
    and nodes: "fmlookup ?p ''nodes'' = None \<longrightarrow> fmlookup b ''nodes'' = Some (JArr [])"
    and connections: "fmlookup ?p ''connections'' = None
          \<longrightarrow> fmlookup b ''connections'' = Some (JObj fmempty)"
    and tags: "fmlookup ?p ''tags'' = None \<longrightarrow> fmlookup b ''tags'' = Some (JArr [])"
    and active: "fmlookup b ''active''
           = Some (if truthy (jsprop (JObj ?p) ''active'') then jsprop (JObj ?p) ''active''
                   else JBool False)"
    by (elim exE conjE)
  have absent: "fmlookup ?p ''nodes'' = None" "fmlookup ?p ''connections'' = None"
    "fmlookup ?p ''tags'' = None" "jsprop (JObj ?p) ''settings'' = JUndefined"
    "jsprop (JObj ?p) ''active'' = JUndefined" "jsprop (JObj ?p) ''name'' = JStr ''New''"
    by (simp_all add: fmlookup_of_list)
  have merged: "fmlookup (fmadd default_settings (own_props (jsprop (JObj ?p) ''settings'')))
                  ''saveExecutionProgress'' = Some (JBool True)"
    "fmlookup (fmadd default_settings (own_props (jsprop (JObj ?p) ''settings'')))
                  ''timezone'' = Some (JStr ''UTC'')"
    unfolding absent fmlookup_fmadd_case default_settings_lookup by simp_all
  show "\<exists>b. sent (snd (createWorkflow stub_upstream (JObj ?p) start))
          = [\<lparr>meth = POST, url = ''/workflows'', body = Some (JObj b)\<rparr>]
     \<and> fmlookup b ''name'' = Some (JStr ''New'')
     \<and> fmlookup b ''nodes'' = Some (JArr [])
     \<and> fmlookup b ''connections'' = Some (JObj fmempty)
     \<and> fmlookup b ''tags'' = Some (JArr [])
     \<and> fmlookup b ''active'' = Some (JBool False)
     \<and> (\<exists>ms. fmlookup b ''settings'' = Some (JObj ms)
             \<and> fmlookup ms ''saveExecutionProgress'' = Some (JBool True)
             \<and> fmlookup ms ''timezone'' = Some (JStr ''UTC''))"
    apply (rule exI [of _ b])
    apply (intro conjI)
    subgoal using posted by (simp add: start_def)
    subgoal using name by (simp only: absent)
    subgoal using nodes absent(1) by (rule mp)
    subgoal using connections absent(2) by (rule mp)
    subgoal using tags absent(3) by (rule mp)
    subgoal using active by (simp add: absent)
    subgoal
      apply (rule exI [of _ "fmadd default_settings (own_props (jsprop (JObj ?p) ''settings''))"])
      apply (intro conjI)
        apply (rule settings)
       apply (rule merged(1))
      apply (rule merged(2))
      done
    done
next
  let ?cs = "fmap_of_list [(''timezone'', JStr ''Europe/Berlin''), (''executionOrder'', JStr ''v1'')]"
  let ?nodes = "JArr [JObj (fmap_of_list [(''name'', JStr ''Schedule Trigger'')])]"
  let ?connections = "JObj (fmap_of_list [(''Schedule Trigger'', JArr [])])"
  let ?p = "fmap_of_list
                [(''name'', JStr ''Nightly''),
                 (''nodes'', ?nodes),
                 (''connections'', ?connections),
                 (''tags'', JArr [JStr ''prod'']),
                 (''active'', JBool True),
                 (''settings'', JObj ?cs)]"
  from createWorkflow_defaults [of stub_upstream ?p start]
  obtain b where posted: "sent (snd (createWorkflow stub_upstream (JObj ?p) start))
          = sent start @ [\<lparr>meth = POST, url = ''/workflows'', body = Some (JObj b)\<rparr>]"
    and settings: "fmlookup b ''settings''
          = Some (JObj (fmadd default_settings (own_props (jsprop (JObj ?p) ''settings''))))"
    and name: "fmlookup b ''name'' = Some (jsprop (JObj ?p) ''name'')"
    and nodes: "fmlookup b ''nodes''
           = Some (if truthy (jsprop (JObj ?p) ''nodes'') then jsprop (JObj ?p) ''nodes'' else JArr [])"
    and connections: "fmlookup b ''connections''
           = Some (if truthy (jsprop (JObj ?p) ''connections'') then jsprop (JObj ?p) ''connections''
                   else JObj fmempty)"
    and tags: "fmlookup b ''tags''
           = Some (if truthy (jsprop (JObj ?p) ''tags'') then jsprop (JObj ?p) ''tags'' else JArr [])"
    and active: "fmlookup b ''active''
           = Some (if truthy (jsprop (JObj ?p) ''active'') then jsprop (JObj ?p) ''active''
                   else JBool False)"
    and rest: "\<forall>k. k \<notin> {''name'', ''nodes'', ''connections'', ''settings'', ''active'', ''tags''}
            \<longrightarrow> fmlookup b k = None"
    by (elim exE conjE)
  have given: "jsprop (JObj ?p) ''name'' = JStr ''Nightly''" "jsprop (JObj ?p) ''nodes'' = ?nodes"
    "jsprop (JObj ?p) ''connections'' = ?connections" "jsprop (JObj ?p) ''tags'' = JArr [JStr ''prod'']"
    "jsprop (JObj ?p) ''active'' = JBool True" "jsprop (JObj ?p) ''settings'' = JObj ?cs"
    by (simp_all add: fmlookup_of_list)
  have merged: "fmlookup (fmadd default_settings (own_props (JObj ?cs))) ''timezone''
                  = Some (JStr ''Europe/Berlin'')"
    "fmlookup (fmadd default_settings (own_props (JObj ?cs))) ''executionOrder'' = Some (JStr ''v1'')"
    "fmlookup (fmadd default_settings (own_props (JObj ?cs))) ''saveExecutionProgress''
                  = Some (JBool True)"
    "fmlookup (fmadd default_settings (own_props (JObj ?cs))) ''executionTimeout'' = Some (JNum 3600)"
    unfolding fmlookup_fmadd_case default_settings_lookup by (simp_all add: fmlookup_of_list)
  from rest have noid: "fmlookup b ''id'' = None" by simp
  show "\<exists>b. sent (snd (createWorkflow stub_upstream (JObj ?p) start))
          = [\<lparr>meth = POST, url = ''/workflows'', body = Some (JObj b)\<rparr>]
     \<and> fmlookup b ''name'' = Some (JStr ''Nightly'')
     \<and> fmlookup b ''nodes'' = Some ?nodes
     \<and> fmlookup b ''connections'' = Some ?connections
     \<and> fmlookup b ''tags'' = Some (JArr [JStr ''prod''])
     \<and> fmlookup b ''active'' = Some (JBool True)
     \<and> fmlookup b ''id'' = None
     \<and> (\<exists>ms. fmlookup b ''settings'' = Some (JObj ms)
             \<and> fmlookup ms ''timezone'' = Some (JStr ''Europe/Berlin'')
             \<and> fmlookup ms ''executionOrder'' = Some (JStr ''v1'')
             \<and> fmlookup ms ''saveExecutionProgress'' = Some (JBool True)
             \<and> fmlookup ms ''executionTimeout'' = Some (JNum 3600))"
    apply (rule exI [of _ b])
    apply (intro conjI)
    subgoal using posted by (simp add: start_def)
    subgoal using name by (simp only: given)
    subgoal using nodes unfolding given by simp
    subgoal using connections unfolding given by simp
    subgoal using tags unfolding given by simp
    subgoal using active unfolding given by simp
    subgoal by (rule noid)
    subgoal
      apply (rule exI [of _ "fmadd default_settings (own_props (JObj ?cs))"])
      apply (intro conjI)
          apply (use settings in \<open>simp only: given\<close>)
         apply (rule merged)+
      done
    done
qed

section \<open>Updating a workflow: read, modify, write\<close>

lemma supplied_or_current_ok:
  "\<not> nullish cur \<Longrightarrow>
   supplied_or_current (JObj p) cur k =
     Inr (if jsprop (JObj p) k \<noteq> JUndefined then jsprop (JObj p) k else jsprop cur k)"
  unfolding supplied_or_current_def prop_get_obj by (simp add: prop_get_ok)

lemma updatedWorkflow_ok:
  assumes "\<not> nullish cur"
  shows "updatedWorkflow cur (JObj p) =
     Inr (JObj (fmadd (own_props cur) (fmap_of_list
         [(''name'', if jsprop (JObj p) ''name'' \<noteq> JUndefined then jsprop (JObj p) ''name'' else jsprop cur ''name''),
          (''nodes'', if jsprop (JObj p) ''nodes'' \<noteq> JUndefined then jsprop (JObj p) ''nodes'' else jsprop cur ''nodes''),
          (''connections'', if jsprop (JObj p) ''connections'' \<noteq> JUndefined then jsprop (JObj p) ''connections'' else jsprop cur ''connections''),
          (''settings'', JObj (fmadd (own_props (jsprop cur ''settings'')) (own_props (jsprop (JObj p) ''settings'')))),
          (''active'', if jsprop (JObj p) ''active'' \<noteq> JUndefined then jsprop (JObj p) ''active'' else jsprop cur ''active''),
          (''tags'', if jsprop (JObj p) ''tags'' \<noteq> JUndefined then jsprop (JObj p) ''tags'' else jsprop cur ''tags'')])))"
  unfolding updatedWorkflow_def supplied_or_current_ok [OF assms] prop_get_ok [OF assms] prop_get_obj then_do.simps ..

lemma getWorkflow_sent:
  "sent (snd (getWorkflow up wid w))
     = sent w @ [\<lparr>meth = GET, url = ''/workflows/'' @ to_string wid, body = None\<rparr>]"
  by (simp add: getWorkflow_def request_eq split: http_outcome.splits)

lemma getWorkflow_resolved:
  "up \<lparr>meth = GET, url = ''/workflows/'' @ to_string wid, body = None\<rparr> (remote w) = (Resolved st cur, s1)
   \<Longrightarrow> getWorkflow up wid w =
       (Inr cur, \<lparr>remote = s1, sent = sent w @ [\<lparr>meth = GET, url = ''/workflows/'' @ to_string wid, body = None\<rparr>]\<rparr>)"
  by (simp add: getWorkflow_def request_eq)

lemma put_sent:
  "sent (snd (case request up r w1 of
                (Rejected m st, w2) \<Rightarrow> (Inl (f m st), w2)
              | (Resolved st d, w2) \<Rightarrow> (Inr d, w2))) = sent w1 @ [r]"
  by (simp add: request_eq split: http_outcome.splits)

lemma updateWorkflow_fetch_first:
  "\<exists>rest. sent (snd (updateWorkflow up wid workflow w))
      = sent w @ \<lparr>meth = GET, url = ''/workflows/'' @ to_string wid, body = None\<rparr> # rest"
proof (cases "getWorkflow up wid w")
  case (Pair r w1)
  then have w1: "sent w1 = sent w @ [\<lparr>meth = GET, url = ''/workflows/'' @ to_string wid, body = None\<rparr>]"
    using getWorkflow_sent [of up wid w] by simp
  show ?thesis
  proof (cases r)
    case (Inl e)
    with Pair w1 show ?thesis by (simp add: updateWorkflow_def)
  next
    case (Inr cur)
    show ?thesis
    proof (cases "updatedWorkflow cur workflow")
      case (Inl e)
      with Pair Inr w1 show ?thesis by (simp add: updateWorkflow_def)
    next
      case b: (Inr b)
      have "sent (snd (updateWorkflow up wid workflow w))
              = sent w1 @ [\<lparr>meth = PUT, url = ''/workflows/'' @ to_string wid, body = Some b\<rparr>]"
        unfolding updateWorkflow_def Pair Inr prod.case sum.case b by (rule put_sent)
      then show ?thesis by (simp add: w1)
    qed
  qed
qed

lemma updateWorkflow_put:
  assumes "up \<lparr>meth = GET, url = ''/workflows/'' @ to_string wid, body = None\<rparr> (remote w) = (Resolved st cur, s1)"
    and "updatedWorkflow cur workflow = Inr b"
  shows "sent (snd (updateWorkflow up wid workflow w))
      = sent w @ [\<lparr>meth = GET, url = ''/workflows/'' @ to_string wid, body = None\<rparr>,
                  \<lparr>meth = PUT, url = ''/workflows/'' @ to_string wid, body = Some b\<rparr>]"
proof -
  have "sent (snd (updateWorkflow up wid workflow w))
          = sent \<lparr>remote = s1, sent = sent w @ [\<lparr>meth = GET, url = ''/workflows/'' @ to_string wid, body = None\<rparr>]\<rparr>
              @ [\<lparr>meth = PUT, url = ''/workflows/'' @ to_string wid, body = Some b\<rparr>]"
    unfolding updateWorkflow_def getWorkflow_resolved [where up = up and wid = wid and w = w, OF assms(1)]
      prod.case sum.case assms(2)
    by (rule put_sent)
  then show ?thesis by simp
qed

lemma literal_over_spread:
  "fmlookup (fmadd a (fmap_of_list [(k1, v1), (k2, v2), (k3, v3), (k4, v4), (k5, v5), (k6, v6)])) k =
     (if k = k1 then Some v1 else if k = k2 then Some v2 else if k = k3 then Some v3
      else if k = k4 then Some v4 else if k = k5 then Some v5 else if k = k6 then Some v6
      else fmlookup a k)"
  unfolding fmlookup_fmadd_case fmlookup_of_list by simp

text \<open>
  C3. For every workflow id and every payload object, the first request of
  \<open>updateWorkflow\<close> is the fetch \<open>GET /workflows/{id}\<close>. When the fetch is answered with
  a value other than \<open>null\<close>, exactly one more request follows, a
  \<open>PUT /workflows/{id}\<close>, and its body is the fetched copy in which \<open>name\<close>,
  \<open>nodes\<close>, \<open>connections\<close>, \<open>active\<close> and \<open>tags\<close> are the payload's value where
  the payload has one that is not \<open>undefined\<close> and the fetched value otherwise,
  \<open>settings\<close> is the fetched settings overridden by the payload's settings, and every
  other property is the fetched one.
\<close>

theorem updateWorkflow_read_modify_write:
  "(\<exists>rest. sent (snd (updateWorkflow up wid (JObj p) w))
      = sent w @ \<lparr>meth = GET, url = ''/workflows/'' @ to_string wid, body = None\<rparr> # rest)
   \<and> (\<forall>st cur s1.
        up \<lparr>meth = GET, url = ''/workflows/'' @ to_string wid, body = None\<rparr> (remote w)
          = (Resolved st cur, s1) \<and> \<not> nullish cur \<longrightarrow>
        (\<exists>b. sent (snd (updateWorkflow up wid (JObj p) w))
               = sent w @ [\<lparr>meth = GET, url = ''/workflows/'' @ to_string wid, body = None\<rparr>,
                           \<lparr>meth = PUT, url = ''/workflows/'' @ to_string wid, body = Some (JObj b)\<rparr>]
           \<and> (\<forall>k \<in> {''name'', ''nodes'', ''connections'', ''active'', ''tags''}.
                 fmlookup b k = Some (if jsprop (JObj p) k \<noteq> JUndefined then jsprop (JObj p) k
                                      else jsprop cur k))
           \<and> fmlookup b ''settings''
                = Some (JObj (fmadd (own_props (jsprop cur ''settings''))
                                    (own_props (jsprop (JObj p) ''settings''))))
           \<and> (\<forall>k. k \<notin> {''name'', ''nodes'', ''connections'', ''settings'', ''active'', ''tags''}
                 \<longrightarrow> fmlookup b k = fmlookup (own_props cur) k)))"
proof (intro conjI allI impI)
  show "\<exists>rest. sent (snd (updateWorkflow up wid (JObj p) w))
      = sent w @ \<lparr>meth = GET, url = ''/workflows/'' @ to_string wid, body = None\<rparr> # rest"
    by (rule updateWorkflow_fetch_first)
next
  fix st cur s1
  assume h: "up \<lparr>meth = GET, url = ''/workflows/'' @ to_string wid, body = None\<rparr> (remote w)
          = (Resolved st cur, s1) \<and> \<not> nullish cur"
  then have fetched: "up \<lparr>meth = GET, url = ''/workflows/'' @ to_string wid, body = None\<rparr> (remote w)
          = (Resolved st cur, s1)" and cur: "\<not> nullish cur" by simp_all
  let ?pick = "\<lambda>k. if jsprop (JObj p) k \<noteq> JUndefined then jsprop (JObj p) k else jsprop cur k"
  let ?settings = "JObj (fmadd (own_props (jsprop cur ''settings''))
                               (own_props (jsprop (JObj p) ''settings'')))"
  define b where "b = fmadd (own_props cur) (fmap_of_list
         [(''name'', ?pick ''name''), (''nodes'', ?pick ''nodes''),
          (''connections'', ?pick ''connections''), (''settings'', ?settings),
          (''active'', ?pick ''active''), (''tags'', ?pick ''tags'')])"
  have built: "updatedWorkflow cur (JObj p) = Inr (JObj b)"
    unfolding b_def by (rule updatedWorkflow_ok [OF cur])
  have put: "sent (snd (updateWorkflow up wid (JObj p) w))
               = sent w @ [\<lparr>meth = GET, url = ''/workflows/'' @ to_string wid, body = None\<rparr>,
                           \<lparr>meth = PUT, url = ''/workflows/'' @ to_string wid, body = Some (JObj b)\<rparr>]"
    by (rule updateWorkflow_put [where up = up and wid = wid and w = w, OF fetched built])
  have name: "fmlookup b ''name'' = Some (?pick ''name'')"
    unfolding b_def literal_over_spread by simp
  have nodes: "fmlookup b ''nodes'' = Some (?pick ''nodes'')"
    unfolding b_def literal_over_spread by simp
  have connections: "fmlookup b ''connections'' = Some (?pick ''connections'')"
    unfolding b_def literal_over_spread by simp
  have active: "fmlookup b ''active'' = Some (?pick ''active'')"
    unfolding b_def literal_over_spread by simp
  have tags: "fmlookup b ''tags'' = Some (?pick ''tags'')"
    unfolding b_def literal_over_spread by simp
  have settings: "fmlookup b ''settings'' = Some ?settings"
    unfolding b_def literal_over_spread by simp
  have rest: "fmlookup b k = fmlookup (own_props cur) k"
    if "k \<notin> {''name'', ''nodes'', ''connections'', ''settings'', ''active'', ''tags''}" for k
    using that unfolding b_def literal_over_spread by simp
  have five: "\<forall>k \<in> {''name'', ''nodes'', ''connections'', ''active'', ''tags''}.
                 fmlookup b k = Some (?pick k)"
    by (simp add: name nodes connections active tags)
  show "\<exists>b. sent (snd (updateWorkflow up wid (JObj p) w))
               = sent w @ [\<lparr>meth = GET, url = ''/workflows/'' @ to_string wid, body = None\<rparr>,
                           \<lparr>meth = PUT, url = ''/workflows/'' @ to_string wid, body = Some (JObj b)\<rparr>]
           \<and> (\<forall>k \<in> {''name'', ''nodes'', ''connections'', ''active'', ''tags''}.
                 fmlookup b k = Some (if jsprop (JObj p) k \<noteq> JUndefined then jsprop (JObj p) k
                                      else jsprop cur k))
           \<and> fmlookup b ''settings''
                = Some (JObj (fmadd (own_props (jsprop cur ''settings''))
                                    (own_props (jsprop (JObj p) ''settings''))))
           \<and> (\<forall>k. k \<notin> {''name'', ''nodes'', ''connections'', ''settings'', ''active'', ''tags''}
                 \<longrightarrow> fmlookup b k = fmlookup (own_props cur) k)"
    apply (rule exI [of _ b])
    apply (intro conjI allI impI)
    subgoal by (rule put)
    subgoal by (rule five)
    subgoal by (rule settings)
    subgoal for k by (rule rest)
    done
qed

theorem updateWorkflow_read_modify_write_witness:
  "\<exists>b. sent (snd (updateWorkflow stub_upstream (JStr ''w1'')
                     (JObj (fmap_of_list [(''active'', JBool True),
                        (''settings'', JObj (fmap_of_list [(''executionTimeout'', JNum 60)]))])) start))
         = [\<lparr>meth = GET, url = ''/workflows/w1'', body = None\<rparr>,
            \<lparr>meth = PUT, url = ''/workflows/w1'', body = Some (JObj b)\<rparr>]
      \<and> fmlookup b ''name'' = Some (JStr ''Test'')
      \<and> fmlookup b ''active'' = Some (JBool True)
      \<and> fmlookup b ''id'' = Some (JStr ''w1'')
      \<and> (\<exists>ms. fmlookup b ''settings'' = Some (JObj ms)
            \<and> fmlookup ms ''timezone'' = Some (JStr ''UTC'')
            \<and> fmlookup ms ''executionTimeout'' = Some (JNum 60))"
  using updateWorkflow_read_modify_write [of stub_upstream "JStr ''w1''"
          "fmap_of_list [(''active'', JBool True),
                        (''settings'', JObj (fmap_of_list [(''executionTimeout'', JNum 60)]))]" start]
  apply (simp add: fmlookup_of_list start_def stub_upstream_def test_workflow_def)
  apply (elim conjE exE)
  subgoal for rest b
    apply (rule exI [of _ b])
    apply (frule spec [of _ "''id''"])
    apply simp
    done
  done

section \<open>The update handler, step by step\<close>

lemma getWorkflows_resolved:
  assumes "up \<lparr>meth = GET, url = ''/workflows'', body = None\<rparr> (remote w) = (Resolved st d, s1)"
    and "\<not> nullish d"
  shows "getWorkflows up w =
       (Inr (or_else (jsprop d ''data'') (JArr [])),
        \<lparr>remote = s1, sent = sent w @ [\<lparr>meth = GET, url = ''/workflows'', body = None\<rparr>]\<rparr>)"
  using assms by (simp add: getWorkflows_def request_eq prop_get_ok or_else_def)

lemma getWorkflows_sent:
  "sent (snd (getWorkflows up w)) = sent w @ [\<lparr>meth = GET, url = ''/workflows'', body = None\<rparr>]"
  by (simp add: getWorkflows_def request_eq split: http_outcome.splits sum.splits)

lemma strict_eq_JStr: "strict_eq v (JStr s) = (v = JStr s)"
  by (cases v) auto

lemma strict_eq_undefined: "strict_eq JUndefined v = (v = JUndefined)"
  by (cases v) auto

lemma found_truthy:
  assumes "truthy name" and "strict_eq (jsprop hit ''name'') name"
  shows "truthy hit"
  using assms by (cases hit) (auto simp add: strict_eq_undefined)

lemma find_named_find:
  assumes "\<forall>x \<in> set ws. \<not> nullish x"
  shows "find_named ws name =
     Inr (case List.find (\<lambda>x. strict_eq (jsprop x ''name'') name) ws of
            None \<Rightarrow> JUndefined | Some hit \<Rightarrow> hit)"
  using assms by (induction ws) (simp_all add: prop_get_ok)

lemma update_steps_not_found:
  assumes "\<not> nullish args" and "truthy (jsprop args ''name'')"
    and "\<not> (truthy (jsprop args ''nodes'') \<and> \<not> isArray (jsprop args ''nodes''))"
    and "\<not> (truthy (jsprop args ''connections'') \<and> typeof (jsprop args ''connections'') \<noteq> ''object'')"
    and "getWorkflows up w = (Inr workflows, w1)"
    and "find_workflow workflows (jsprop args ''name'') = Inr hit" and "\<not> truthy hit"
  shows "update_steps up args w =
     (Inl (N8nApiError (''Workflow with name '' @ dq @ to_string (jsprop args ''name'') @ dq
             @ '' not found'') None), w1)"
  unfolding update_steps_def Let_def using assms by auto

lemma update_steps_found:
  assumes "\<not> nullish args" and "truthy (jsprop args ''name'')"
    and "\<not> (truthy (jsprop args ''nodes'') \<and> \<not> isArray (jsprop args ''nodes''))"
    and "\<not> (truthy (jsprop args ''connections'') \<and> typeof (jsprop args ''connections'') \<noteq> ''object'')"
    and "getWorkflows up w = (Inr workflows, w1)"
    and "find_workflow workflows (jsprop args ''name'') = Inr hit" and "truthy hit"
    and "updateWorkflow up (jsprop hit ''id'')
           (workflowData hit (jsprop args ''newName'') (jsprop args ''nodes'')
              (jsprop args ''connections'') (jsprop args ''active'') (jsprop args ''tags'')) w1
         = (r, w2)"
  shows "update_steps up args w =
     (case r of
        Inl e \<Rightarrow> (Inl e, w2)
      | Inr updated \<Rightarrow>
          if nullish updated
          then (Inl (TypeError (''Cannot read properties of '' @ to_string updated
                  @ '' (reading '' @ sq @ ''id'' @ sq @ '')'')), w2)
          else (Inr (formatSuccess
                       (JObj (fmap_of_list [(''id'', jsprop updated ''id''),
                          (''name'', jsprop updated ''name''), (''active'', jsprop updated ''active'')]))
                       (''Workflow updated successfully. ''
                          @ changesSummary (changesArray hit (jsprop args ''newName'')
                              (jsprop args ''active'') (jsprop args ''nodes'')
                              (jsprop args ''connections'') (jsprop args ''tags'')))), w2))"
proof (cases r)
  case (Inl e)
  with assms show ?thesis unfolding update_steps_def Let_def by auto
next
  case (Inr updated)
  show ?thesis
  proof (cases "nullish updated")
    case True
    with assms Inr show ?thesis unfolding update_steps_def Let_def by (auto simp add: prop_get_def)
  next
    case False
    with assms Inr show ?thesis unfolding update_steps_def Let_def by (auto simp add: prop_get_ok)
  qed
qed

lemma update_steps_list_failed:
  assumes "\<not> nullish args" and "truthy (jsprop args ''name'')"
    and "\<not> (truthy (jsprop args ''nodes'') \<and> \<not> isArray (jsprop args ''nodes''))"
    and "\<not> (truthy (jsprop args ''connections'') \<and> typeof (jsprop args ''connections'') \<noteq> ''object'')"
    and "getWorkflows up w = (Inl e, w1)"
  shows "update_steps up args w = (Inl e, w1)"
  unfolding update_steps_def Let_def using assms by auto

lemma update_steps_find_failed:
  assumes "\<not> nullish args" and "truthy (jsprop args ''name'')"
    and "\<not> (truthy (jsprop args ''nodes'') \<and> \<not> isArray (jsprop args ''nodes''))"
    and "\<not> (truthy (jsprop args ''connections'') \<and> typeof (jsprop args ''connections'') \<noteq> ''object'')"
    and "getWorkflows up w = (Inr workflows, w1)"
    and "find_workflow workflows (jsprop args ''name'') = Inl e"
  shows "update_steps up args w = (Inl e, w1)"
  unfolding update_steps_def Let_def using assms by auto

lemma update_steps_found_world:
  assumes "\<not> nullish args" and "truthy (jsprop args ''name'')"
    and "\<not> (truthy (jsprop args ''nodes'') \<and> \<not> isArray (jsprop args ''nodes''))"
    and "\<not> (truthy (jsprop args ''connections'') \<and> typeof (jsprop args ''connections'') \<noteq> ''object'')"
    and "getWorkflows up w = (Inr workflows, w1)"
    and "find_workflow workflows (jsprop args ''name'') = Inr hit" and "truthy hit"
  shows "snd (update_steps up args w) =
     snd (updateWorkflow up (jsprop hit ''id'')
           (workflowData hit (jsprop args ''newName'') (jsprop args ''nodes'')
              (jsprop args ''connections'') (jsprop args ''active'') (jsprop args ''tags'')) w1)"
proof (cases "updateWorkflow up (jsprop hit ''id'')
           (workflowData hit (jsprop args ''newName'') (jsprop args ''nodes'')
              (jsprop args ''connections'') (jsprop args ''active'') (jsprop args ''tags'')) w1")
  case (Pair r w2)
  show ?thesis
    unfolding update_steps_found [OF assms Pair] Pair
    by (cases r) simp_all
qed

lemma update_steps_found_sent:
  assumes "\<not> nullish args" and "truthy (jsprop args ''name'')"
    and "\<not> (truthy (jsprop args ''nodes'') \<and> \<not> isArray (jsprop args ''nodes''))"
    and "\<not> (truthy (jsprop args ''connections'') \<and> typeof (jsprop args ''connections'') \<noteq> ''object'')"
    and "getWorkflows up w = (Inr workflows, w1)"
    and "find_workflow workflows (jsprop args ''name'') = Inr hit" and "truthy hit"
  shows "\<exists>rest. sent (snd (update_steps up args w)) =
     sent w1 @ \<lparr>meth = GET, url = ''/workflows/'' @ to_string (jsprop hit ''id''), body = None\<rparr> # rest"
  unfolding update_steps_found_world [OF assms] by (rule updateWorkflow_fetch_first)

lemma update_steps_lists_first:
  assumes "\<not> nullish args" and "truthy (jsprop args ''name'')"
    and "\<not> (truthy (jsprop args ''nodes'') \<and> \<not> isArray (jsprop args ''nodes''))"
    and "\<not> (truthy (jsprop args ''connections'') \<and> typeof (jsprop args ''connections'') \<noteq> ''object'')"
  shows "\<exists>rest. sent (snd (update_steps up args w)) =
     sent w @ \<lparr>meth = GET, url = ''/workflows'', body = None\<rparr> # rest"
proof (cases "getWorkflows up w")
  case (Pair r w1)
  then have w1: "sent w1 = sent w @ [\<lparr>meth = GET, url = ''/workflows'', body = None\<rparr>]"
    using getWorkflows_sent [of up w] by simp
  show ?thesis
  proof (cases r)
    case (Inl e)
    with Pair have "getWorkflows up w = (Inl e, w1)" by simp
    from update_steps_list_failed [OF assms this] w1 show ?thesis by simp
  next
    case (Inr workflows)
    with Pair have listed: "getWorkflows up w = (Inr workflows, w1)" by simp
    show ?thesis
    proof (cases "find_workflow workflows (jsprop args ''name'')")
      case (Inl e)
      from update_steps_find_failed [OF assms listed Inl] w1 show ?thesis by simp
    next
      case hit: (Inr hit)
      show ?thesis
      proof (cases "truthy hit")
        case True
        from update_steps_found_sent [OF assms listed hit True] w1 show ?thesis by auto
      next
        case False
        from update_steps_not_found [OF assms listed hit False] w1 show ?thesis by simp
      qed
    qed
  qed
qed

lemma sent_execute: "sent (snd (execute up args w)) = sent (snd (update_steps up args w))"
  by (simp add: execute_def handleExecution_def split: prod.splits sum.splits)

lemma execute_thrown:
  "update_steps up args w = (Inl e, w') \<Longrightarrow>
   execute up args w = (\<lparr>content = [TextBlock (message_of e)], isError = True\<rparr>, w')"
  by (simp add: execute_def handleExecution_def)

lemma execute_returned:
  "update_steps up args w = (Inr env, w') \<Longrightarrow> execute up args w = (env, w')"
  by (simp add: execute_def handleExecution_def)

lemma updateWorkflow_resolved:
  assumes "up \<lparr>meth = GET, url = ''/workflows/'' @ to_string wid, body = None\<rparr> (remote w1)
             = (Resolved st2 cur, s2)"
    and "updatedWorkflow cur workflow = Inr b"
    and "up \<lparr>meth = PUT, url = ''/workflows/'' @ to_string wid, body = Some b\<rparr> s2
             = (Resolved st3 upd, s3)"
  shows "updateWorkflow up wid workflow w1 =
     (Inr upd, \<lparr>remote = s3,
                 sent = sent w1 @ [\<lparr>meth = GET, url = ''/workflows/'' @ to_string wid, body = None\<rparr>,
                                   \<lparr>meth = PUT, url = ''/workflows/'' @ to_string wid, body = Some b\<rparr>]\<rparr>)"
  unfolding updateWorkflow_def
    getWorkflow_resolved [where up = up and wid = wid and w = w1, OF assms(1)]
    prod.case sum.case assms(2)
  using assms(3) by (simp add: request_eq)

lemma updatedWorkflow_of_data:
  assumes "\<not> nullish cur"
  shows "\<exists>b. updatedWorkflow cur (workflowData hit newName nodes connections active tags) = Inr (JObj b)
     \<and> (active \<noteq> JUndefined \<longrightarrow> fmlookup b ''active'' = Some active)"
proof -
  define p where "p = assign_if_defined ''tags'' tags
          (assign_if_defined ''active'' active
          (assign_if_defined ''connections'' connections
          (assign_if_defined ''nodes'' nodes
          (assign_if_defined ''name'' newName (own_props hit)))))"
  have p: "workflowData hit newName nodes connections active tags = JObj p"
    by (simp add: workflowData_def p_def)
  have act: "fmlookup p ''active'' = Some active" if "active \<noteq> JUndefined"
    using that by (simp add: p_def assign_if_defined_def)
  show ?thesis
    unfolding p updatedWorkflow_ok [OF assms]
    apply (rule exI, rule conjI, rule refl)
    unfolding literal_over_spread
    apply (simp add: act)
    done
qed

lemma execute_success_listed:
  assumes "truthy (jsprop (JObj m) ''name'')"
    and "\<not> (truthy (jsprop (JObj m) ''nodes'') \<and> \<not> isArray (jsprop (JObj m) ''nodes''))"
    and "\<not> (truthy (jsprop (JObj m) ''connections'')
            \<and> typeof (jsprop (JObj m) ''connections'') \<noteq> ''object'')"
    and "up \<lparr>meth = GET, url = ''/workflows'', body = None\<rparr> (remote w) = (Resolved st1 d, s1)"
    and "jsprop d ''data'' = JArr ws"
    and "\<forall>x \<in> set ws. \<not> nullish x"
    and "List.find (\<lambda>x. strict_eq (jsprop x ''name'') (jsprop (JObj m) ''name'')) ws = Some hit"
    and "up \<lparr>meth = GET, url = ''/workflows/'' @ to_string (jsprop hit ''id''), body = None\<rparr> s1
           = (Resolved st2 cur, s2)"
    and "\<not> nullish cur"
    and "\<forall>b. \<exists>st3 upd s3.
           up \<lparr>meth = PUT, url = ''/workflows/'' @ to_string (jsprop hit ''id''),
               body = Some (JObj b)\<rparr> s2 = (Resolved st3 upd, s3)
           \<and> \<not> nullish upd
           \<and> (echo \<longrightarrow> upd = JObj b)"
  shows "\<exists>upd w'. execute up (JObj m) w =
     (formatSuccess
        (JObj (fmap_of_list [(''id'', jsprop upd ''id''), (''name'', jsprop upd ''name''),
                             (''active'', jsprop upd ''active'')]))
        (''Workflow updated successfully. ''
           @ changesSummary (changesArray hit (jsprop (JObj m) ''newName'') (jsprop (JObj m) ''active'')
               (jsprop (JObj m) ''nodes'') (jsprop (JObj m) ''connections'')
               (jsprop (JObj m) ''tags''))), w')
     \<and> (echo \<and> jsprop (JObj m) ''active'' \<noteq> JUndefined
           \<longrightarrow> jsprop upd ''active'' = jsprop (JObj m) ''active'')"
proof -
  let ?name = "jsprop (JObj m) ''name''"
  let ?w1 = "\<lparr>remote = s1, sent = sent w @ [\<lparr>meth = GET, url = ''/workflows'', body = None\<rparr>]\<rparr>"
  let ?data = "workflowData hit (jsprop (JObj m) ''newName'') (jsprop (JObj m) ''nodes'')
              (jsprop (JObj m) ''connections'') (jsprop (JObj m) ''active'')
              (jsprop (JObj m) ''tags'')"
  have args: "\<not> nullish (JObj m)" by simp
  from assms(5) have d: "\<not> nullish d" by (cases d) auto
  have listed: "getWorkflows up w = (Inr (JArr ws), ?w1)"
    using getWorkflows_resolved [where up = up and w = w, OF assms(4) d] assms(5)
    by (simp add: or_else_def)
  have found: "find_workflow (JArr ws) ?name = Inr hit"
    using find_named_find [OF assms(6), of ?name] assms(7) by simp
  from assms(7) have "strict_eq (jsprop hit ''name'') ?name" by (auto simp add: find_Some_iff)
  with assms(1) have t: "truthy hit" by (rule found_truthy)
  from updatedWorkflow_of_data [OF assms(9)] obtain b
    where b: "updatedWorkflow cur ?data = Inr (JObj b)"
      and act: "jsprop (JObj m) ''active'' \<noteq> JUndefined \<longrightarrow>
                  fmlookup b ''active'' = Some (jsprop (JObj m) ''active'')"
    by blast
  from assms(10) obtain st3 upd s3
    where put: "up \<lparr>meth = PUT, url = ''/workflows/'' @ to_string (jsprop hit ''id''),
               body = Some (JObj b)\<rparr> s2 = (Resolved st3 upd, s3)"
      and upd: "\<not> nullish upd" and echo: "echo \<longrightarrow> upd = JObj b" by blast
  have fetch: "up \<lparr>meth = GET, url = ''/workflows/'' @ to_string (jsprop hit ''id''), body = None\<rparr>
                 (remote ?w1) = (Resolved st2 cur, s2)"
    using assms(8) by simp
  note answered = updateWorkflow_resolved [where up = up and ?w1.0 = ?w1, OF fetch b put]
  from update_steps_found [OF args assms(1-3) listed found t answered] upd
  have "\<exists>w'. update_steps up (JObj m) w =
     (Inr (formatSuccess
        (JObj (fmap_of_list [(''id'', jsprop upd ''id''), (''name'', jsprop upd ''name''),
                             (''active'', jsprop upd ''active'')]))
        (''Workflow updated successfully. ''
           @ changesSummary (changesArray hit (jsprop (JObj m) ''newName'') (jsprop (JObj m) ''active'')
               (jsprop (JObj m) ''nodes'') (jsprop (JObj m) ''connections'')
               (jsprop (JObj m) ''tags'')))), w')"
    by simp
  then obtain w' where "execute up (JObj m) w =
     (formatSuccess
        (JObj (fmap_of_list [(''id'', jsprop upd ''id''), (''name'', jsprop upd ''name''),
                             (''active'', jsprop upd ''active'')]))
        (''Workflow updated successfully. ''
           @ changesSummary (changesArray hit (jsprop (JObj m) ''newName'') (jsprop (JObj m) ''active'')
               (jsprop (JObj m) ''nodes'') (jsprop (JObj m) ''connections'')
               (jsprop (JObj m) ''tags''))), w')"
    using execute_returned by blast
  moreover have "echo \<and> jsprop (JObj m) ''active'' \<noteq> JUndefined
           \<longrightarrow> jsprop upd ''active'' = jsprop (JObj m) ''active''"
    using echo act by auto
  ultimately show ?thesis by blast
qed

lemma update_steps_returned:
  assumes "update_steps up args w = (Inr env, w')"
  shows "\<exists>workflows w1 hit upd.
           getWorkflows up w = (Inr workflows, w1)
         \<and> find_workflow workflows (jsprop args ''name'') = Inr hit
         \<and> truthy hit
         \<and> updateWorkflow up (jsprop hit ''id'')
              (workflowData hit (jsprop args ''newName'') (jsprop args ''nodes'')
                 (jsprop args ''connections'') (jsprop args ''active'') (jsprop args ''tags'')) w1
             = (Inr upd, w')
         \<and> env = formatSuccess
               (JObj (fmap_of_list [(''id'', jsprop upd ''id''), (''name'', jsprop upd ''name''),
                                    (''active'', jsprop upd ''active'')]))
               (''Workflow updated successfully. ''
                  @ changesSummary (changesArray hit (jsprop args ''newName'') (jsprop args ''active'')
                      (jsprop args ''nodes'') (jsprop args ''connections'') (jsprop args ''tags'')))"
proof -
  have nn: "\<not> nullish args"
  proof
    assume "nullish args"
    then have "\<exists>e. update_steps up args w = (Inl e, w)" by (simp add: update_steps_def)
    with assms show False by auto
  qed
  have name: "truthy (jsprop args ''name'')"
  proof (rule ccontr)
    assume "\<not> truthy (jsprop args ''name'')"
    with nn have "\<exists>e. update_steps up args w = (Inl e, w)" by (simp add: update_steps_def Let_def)
    with assms show False by auto
  qed
  have nodes: "\<not> (truthy (jsprop args ''nodes'') \<and> \<not> isArray (jsprop args ''nodes''))"
  proof
    assume "truthy (jsprop args ''nodes'') \<and> \<not> isArray (jsprop args ''nodes'')"
    with nn name have "\<exists>e. update_steps up args w = (Inl e, w)"
      by (simp add: update_steps_def Let_def)
    with assms show False by auto
  qed
  have connections: "\<not> (truthy (jsprop args ''connections'')
                       \<and> typeof (jsprop args ''connections'') \<noteq> ''object'')"
  proof
    assume "truthy (jsprop args ''connections'') \<and> typeof (jsprop args ''connections'') \<noteq> ''object''"
    with nn name nodes have "\<exists>e. update_steps up args w = (Inl e, w)"
      unfolding update_steps_def Let_def by auto
    with assms show False by auto
  qed
  note valid = nn name nodes connections
  obtain r w1 where listed: "getWorkflows up w = (r, w1)" by (cases "getWorkflows up w")
  have "\<exists>workflows. r = Inr workflows"
  proof (cases r)
    case (Inl e)
    with listed have "getWorkflows up w = (Inl e, w1)" by simp
    from update_steps_list_failed [OF valid this] assms show ?thesis by simp
  qed simp
  then obtain workflows where listed: "getWorkflows up w = (Inr workflows, w1)"
    using listed by auto
  have "\<exists>hit. find_workflow workflows (jsprop args ''name'') = Inr hit"
  proof (cases "find_workflow workflows (jsprop args ''name'')")
    case (Inl e)
    from update_steps_find_failed [OF valid listed this] assms show ?thesis by simp
  qed simp
  then obtain hit where found: "find_workflow workflows (jsprop args ''name'') = Inr hit" by auto
  have t: "truthy hit"
  proof (rule ccontr)
    assume "\<not> truthy hit"
    from update_steps_not_found [OF valid listed found this] assms show False by simp
  qed
  obtain r2 w2 where upd: "updateWorkflow up (jsprop hit ''id'')
              (workflowData hit (jsprop args ''newName'') (jsprop args ''nodes'')
                 (jsprop args ''connections'') (jsprop args ''active'') (jsprop args ''tags'')) w1
             = (r2, w2)"
    by (cases "updateWorkflow up (jsprop hit ''id'')
              (workflowData hit (jsprop args ''newName'') (jsprop args ''nodes'')
                 (jsprop args ''connections'') (jsprop args ''active'') (jsprop args ''tags'')) w1")
  note tail = update_steps_found [OF valid listed found t upd]
  show ?thesis
  proof (cases r2)
    case (Inl e)
    with tail assms show ?thesis by simp
  next
    case (Inr u)
    show ?thesis
    proof (cases "nullish u")
      case True
      with tail Inr assms show ?thesis by simp
    next
      case False
      with tail Inr assms have "w2 = w'" and "env = formatSuccess
               (JObj (fmap_of_list [(''id'', jsprop u ''id''), (''name'', jsprop u ''name''),
                                    (''active'', jsprop u ''active'')]))
               (''Workflow updated successfully. ''
                  @ changesSummary (changesArray hit (jsprop args ''newName'') (jsprop args ''active'')
                      (jsprop args ''nodes'') (jsprop args ''connections'') (jsprop args ''tags'')))"
        by simp_all
      with listed found t upd Inr show ?thesis by blast
    qed
  qed
qed

lemma execute_succeeded:
  assumes "execute up args w = (env, w')" and "\<not> isError env"
  shows "update_steps up args w = (Inr env, w')"
proof (cases "update_steps up args w")
  case (Pair r w2)
  show ?thesis
  proof (cases r)
    case (Inl e)
    with Pair assms show ?thesis by (auto simp add: execute_def handleExecution_def)
  next
    case (Inr v)
    with Pair assms show ?thesis by (auto simp add: execute_def handleExecution_def)
  qed
qed

lemma changesArray_entries:
  "changesArray workflow newName active nodes connections tags =
     map fst (filter snd
       [(''name: '' @ dq @ to_string (jsprop workflow ''name'') @ dq @ '' '' @ arrow @ '' ''
           @ dq @ to_string newName @ dq,
         newName \<noteq> JUndefined \<and> \<not> strict_eq newName (jsprop workflow ''name'')),
        (''active: '' @ to_string (jsprop workflow ''active'') @ '' '' @ arrow @ '' ''
           @ to_string active,
         active \<noteq> JUndefined \<and> \<not> strict_eq active (jsprop workflow ''active'')),
        (''nodes updated'', nodes \<noteq> JUndefined),
        (''connections updated'', connections \<noteq> JUndefined),
        (''tags updated'', tags \<noteq> JUndefined)])"
  by (simp add: changesArray_def)

lemma changesSummary_cases:
  "changesSummary changes =
     (if changes = [] then ''No changes were made'' else ''Changes: '' @ join '', '' changes)"
  by (simp add: changesSummary_def)

lemmas run_defs = execute_def handleExecution_def update_steps_def getWorkflows_def request_def
  stub_upstream_def test_workflow_def prop_get_def or_else_def updateWorkflow_def getWorkflow_def
  updatedWorkflow_def supplied_or_current_def workflowData_def assign_if_defined_def
  changesArray_def changesSummary_def formatSuccess_def start_def Let_def fmlookup_of_list
  dq_def always_def

section \<open>The type checks of \<open>update_workflow\<close>\<close>

text \<open>
  What the two checks do catch, for an argument mapping whose \<open>name\<close> is truthy: a
  truthy \<open>nodes\<close> that is not an array, and then a truthy \<open>connections\<close> whose
  \<open>typeof\<close> is not \<open>object\<close>; each ends the call before any request is sent.
\<close>

lemma type_checks_reject:
  assumes "truthy (jsprop (JObj m) ''name'')"
  shows "(truthy (jsprop (JObj m) ''nodes'') \<and> \<not> isArray (jsprop (JObj m) ''nodes'') \<longrightarrow>
           update_steps up (JObj m) w =
             (Inl (N8nApiError (''Parameter '' @ dq @ ''nodes'' @ dq @ '' must be an array'') None), w)
           \<and> execute up (JObj m) w =
             (\<lparr>content = [TextBlock (''Parameter '' @ dq @ ''nodes'' @ dq @ '' must be an array'')],
               isError = True\<rparr>, w))
       \<and> (\<not> (truthy (jsprop (JObj m) ''nodes'') \<and> \<not> isArray (jsprop (JObj m) ''nodes''))
            \<and> truthy (jsprop (JObj m) ''connections'')
            \<and> typeof (jsprop (JObj m) ''connections'') \<noteq> ''object'' \<longrightarrow>
           update_steps up (JObj m) w =
             (Inl (N8nApiError (''Parameter '' @ dq @ ''connections'' @ dq @ '' must be an object'')
                     None), w)
           \<and> execute up (JObj m) w =
             (\<lparr>content = [TextBlock (''Parameter '' @ dq @ ''connections'' @ dq @ '' must be an object'')],
               isError = True\<rparr>, w))"
  using assms unfolding execute_def handleExecution_def update_steps_def Let_def by auto

text \<open>
  C8. The claim: whenever \<open>nodes\<close> is present and not a sequence, or \<open>connections\<close> is
  present and not a mapping, the call fails with the validation error before any upstream
  request. The code misses this. With \<open>{name: "Test", nodes: 0}\<close> the check
  \<open>nodes && !Array.isArray(nodes)\<close> lets the number through, although the lines after it
  treat it as provided: the call succeeds, the summary says \<open>nodes updated\<close>, and the
  \<open>PUT\<close> sent upstream carries \<open>nodes: 0\<close>. With \<open>{name: "Test", connections: []}\<close>
  the check \<open>typeof connections !== 'object'\<close> lets the array through: the call succeeds,
  the summary says \<open>connections updated\<close>, and the \<open>PUT\<close> carries \<open>connections: []\<close>.
\<close>

theorem update_workflow_type_checks_missed:
  "fst (execute stub_upstream
          (JObj (fmap_of_list [(''name'', JStr ''Test''), (''nodes'', JNum 0)])) start)
     = \<lparr>content = [TextBlock ''Workflow updated successfully. Changes: nodes updated'',
                     JsonBlock (JObj (fmap_of_list [(''id'', JStr ''w1''), (''name'', JStr ''Test''),
                                                    (''active'', JBool False)]))],
          isError = False\<rparr>
   \<and> map meth (sent (snd (execute stub_upstream
          (JObj (fmap_of_list [(''name'', JStr ''Test''), (''nodes'', JNum 0)])) start)))
       = [GET, GET, PUT]
   \<and> jsprop (the (body (last (sent (snd (execute stub_upstream
          (JObj (fmap_of_list [(''name'', JStr ''Test''), (''nodes'', JNum 0)])) start))))))
        ''nodes'' = JNum 0
   \<and> fst (execute stub_upstream
          (JObj (fmap_of_list [(''name'', JStr ''Test''), (''connections'', JArr [])])) start)
     = \<lparr>content = [TextBlock ''Workflow updated successfully. Changes: connections updated'',
                     JsonBlock (JObj (fmap_of_list [(''id'', JStr ''w1''), (''name'', JStr ''Test''),
                                                    (''active'', JBool False)]))],
          isError = False\<rparr>
   \<and> map meth (sent (snd (execute stub_upstream
          (JObj (fmap_of_list [(''name'', JStr ''Test''), (''connections'', JArr [])])) start)))
       = [GET, GET, PUT]
   \<and> jsprop (the (body (last (sent (snd (execute stub_upstream
          (JObj (fmap_of_list [(''name'', JStr ''Test''), (''connections'', JArr [])])) start))))))
        ''connections'' = JArr []"
  by (simp add: run_defs)

section \<open>Looking the workflow up by name\<close>

text \<open>
  C7, as amended. For every argument mapping whose \<open>name\<close> is truthy and whose \<open>nodes\<close>
  and \<open>connections\<close> pass the type checks, the first request of \<open>update_workflow\<close> is the
  listing \<open>GET /workflows\<close>. When the listing is answered with a list of values none of
  which is \<open>null\<close>: if no element has that name, the steps throw the error
  \<open>Workflow with name "<name>" not found\<close>, the handler returns the error envelope with
  that text, and the listing is the only request sent;
  otherwise the next request addresses the first element whose name is the given one,
  \<open>GET /workflows/{id}\<close> with its id.
\<close>

theorem update_workflow_lookup_by_name:
  assumes "truthy (jsprop (JObj m) ''name'')"
    and "\<not> (truthy (jsprop (JObj m) ''nodes'') \<and> \<not> isArray (jsprop (JObj m) ''nodes''))"
    and "\<not> (truthy (jsprop (JObj m) ''connections'')
             \<and> typeof (jsprop (JObj m) ''connections'') \<noteq> ''object'')"
  shows "(\<exists>rest. sent (snd (execute up (JObj m) w))
            = sent w @ \<lparr>meth = GET, url = ''/workflows'', body = None\<rparr> # rest)
     \<and> (\<forall>st d s1 ws.
          up \<lparr>meth = GET, url = ''/workflows'', body = None\<rparr> (remote w) = (Resolved st d, s1)
          \<and> jsprop d ''data'' = JArr ws \<and> (\<forall>x \<in> set ws. \<not> nullish x) \<longrightarrow>
          (case List.find (\<lambda>x. strict_eq (jsprop x ''name'') (jsprop (JObj m) ''name'')) ws of
             None \<Rightarrow>
               update_steps up (JObj m) w =
                 (Inl (N8nApiError (''Workflow with name '' @ dq
                         @ to_string (jsprop (JObj m) ''name'') @ dq @ '' not found'') None),
                  \<lparr>remote = s1,
                    sent = sent w @ [\<lparr>meth = GET, url = ''/workflows'', body = None\<rparr>]\<rparr>)
               \<and> execute up (JObj m) w =
                 (\<lparr>content = [TextBlock (''Workflow with name '' @ dq
                                 @ to_string (jsprop (JObj m) ''name'') @ dq @ '' not found'')],
                   isError = True\<rparr>,
                  \<lparr>remote = s1,
                    sent = sent w @ [\<lparr>meth = GET, url = ''/workflows'', body = None\<rparr>]\<rparr>)
           | Some hit \<Rightarrow>
               (\<exists>rest. sent (snd (execute up (JObj m) w))
                  = sent w @ \<lparr>meth = GET, url = ''/workflows'', body = None\<rparr>
                      # \<lparr>meth = GET, url = ''/workflows/'' @ to_string (jsprop hit ''id''),
                          body = None\<rparr> # rest)))"
proof (intro conjI allI impI)
  have args: "\<not> nullish (JObj m)" by simp
  note valid = args assms
  show "\<exists>rest. sent (snd (execute up (JObj m) w))
            = sent w @ \<lparr>meth = GET, url = ''/workflows'', body = None\<rparr> # rest"
    unfolding sent_execute by (rule update_steps_lists_first [OF valid])
  fix st d s1 ws
  assume h: "up \<lparr>meth = GET, url = ''/workflows'', body = None\<rparr> (remote w) = (Resolved st d, s1)
          \<and> jsprop d ''data'' = JArr ws \<and> (\<forall>x \<in> set ws. \<not> nullish x)"
  let ?name = "jsprop (JObj m) ''name''"
  let ?w1 = "\<lparr>remote = s1, sent = sent w @ [\<lparr>meth = GET, url = ''/workflows'', body = None\<rparr>]\<rparr>"
  from h have d: "\<not> nullish d" by (cases d) auto
  from h have listed: "getWorkflows up w = (Inr (JArr ws), ?w1)"
    using getWorkflows_resolved [where up = up and w = w and st = st and d = d and ?s1.0 = s1] d
    by (simp add: or_else_def)
  from h have found: "find_workflow (JArr ws) ?name =
      Inr (case List.find (\<lambda>x. strict_eq (jsprop x ''name'') ?name) ws of
            None \<Rightarrow> JUndefined | Some hit \<Rightarrow> hit)"
    by (simp add: find_named_find)
  show "case List.find (\<lambda>x. strict_eq (jsprop x ''name'') ?name) ws of
             None \<Rightarrow>
               update_steps up (JObj m) w =
                 (Inl (N8nApiError (''Workflow with name '' @ dq
                         @ to_string ?name @ dq @ '' not found'') None), ?w1)
               \<and> execute up (JObj m) w =
                 (\<lparr>content = [TextBlock (''Workflow with name '' @ dq
                                 @ to_string ?name @ dq @ '' not found'')],
                   isError = True\<rparr>, ?w1)
           | Some hit \<Rightarrow>
               (\<exists>rest. sent (snd (execute up (JObj m) w))
                  = sent w @ \<lparr>meth = GET, url = ''/workflows'', body = None\<rparr>
                      # \<lparr>meth = GET, url = ''/workflows/'' @ to_string (jsprop hit ''id''),
                          body = None\<rparr> # rest)"
  proof (cases "List.find (\<lambda>x. strict_eq (jsprop x ''name'') ?name) ws")
    case None
    with found have nf: "find_workflow (JArr ws) ?name = Inr JUndefined" by simp
    have "\<not> truthy JUndefined" by simp
    note thrown = update_steps_not_found [OF valid listed nf this]
    from thrown execute_thrown [OF thrown] None
    show ?thesis by simp
  next
    case (Some hit)
    with found have f: "find_workflow (JArr ws) ?name = Inr hit" by simp
    from Some have "strict_eq (jsprop hit ''name'') ?name" by (auto simp add: find_Some_iff)
    with assms(1) have t: "truthy hit" by (rule found_truthy)
    from update_steps_found_sent [OF valid listed f t] Some
    show ?thesis unfolding sent_execute by simp
  qed
qed

theorem update_workflow_lookup_by_name_witness:
  "execute stub_upstream (JObj (fmap_of_list [(''name'', JStr ''Missing'')])) start
     = (\<lparr>content = [TextBlock (''Workflow with name '' @ dq @ ''Missing'' @ dq @ '' not found'')],
          isError = True\<rparr>,
        \<lparr>remote = (), sent = [\<lparr>meth = GET, url = ''/workflows'', body = None\<rparr>]\<rparr>)
   \<and> (\<exists>rest. sent (snd (execute stub_upstream (JObj (fmap_of_list [(''name'', JStr ''Test'')])) start))
         = \<lparr>meth = GET, url = ''/workflows'', body = None\<rparr>
             # \<lparr>meth = GET, url = ''/workflows/w1'', body = None\<rparr> # rest)"
  using update_workflow_lookup_by_name [of "fmap_of_list [(''name'', JStr ''Missing'')]" stub_upstream start]
    update_workflow_lookup_by_name [of "fmap_of_list [(''name'', JStr ''Test'')]" stub_upstream start]
  by (simp add: stub_upstream_def test_workflow_def start_def fmlookup_of_list)

text \<open>
  C7 as stated fails. With \<open>{name: "Test", nodes: "abc"}\<close> the name is not empty, yet
  the handler does not list the workflows: it fails the type check and sends no request.
  And when the listing holds a \<open>null\<close> element and no workflow of that name, the error
  envelope is not the "not found" one: reading \<open>name\<close> of \<open>null\<close> throws first.
\<close>

theorem update_workflow_lookup_by_name_counterexample:
  "execute stub_upstream (JObj (fmap_of_list [(''name'', JStr ''Test''), (''nodes'', JStr ''abc'')])) start
     = (\<lparr>content = [TextBlock (''Parameter '' @ dq @ ''nodes'' @ dq @ '' must be an array'')],
          isError = True\<rparr>,
        \<lparr>remote = (), sent = []\<rparr>)
   \<and> fst (execute (always (Resolved 200 (JObj (fmap_of_list [(''data'', JArr [JNull])]))))
            (JObj (fmap_of_list [(''name'', JStr ''Test'')])) start)
     \<noteq> \<lparr>content = [TextBlock (''Workflow with name '' @ dq @ ''Test'' @ dq @ '' not found'')],
         isError = True\<rparr>"
  by (simp add: run_defs)

section \<open>The summary of changes\<close>

text \<open>
  C2, as amended. For every call of \<open>update_workflow\<close> that returns a success envelope,
  with \<open>workflow\<close> the element that the lookup by name found and \<open>upd\<close> the answer to
  the update: the text is \<open>Workflow updated successfully. \<close> followed by the summary, and
  the payload holds the \<open>id\<close>, \<open>name\<close> and \<open>active\<close> of \<open>upd\<close>. The summary is
  \<open>Changes: \<close> and the entries, joined by \<open>", "\<close>, in this order: the name entry when
  \<open>newName\<close> is supplied and is not the old name; the active entry when \<open>active\<close> is
  supplied and is not the old value; \<open>nodes updated\<close>, \<open>connections updated\<close>,
  \<open>tags updated\<close> whenever that argument is supplied, whether or not its value differs; it
  is \<open>No changes were made\<close> when there is no entry.
  In particular: when the listing holds a first workflow named \<open>Test\<close> with
  \<open>active = false\<close>, its fetch is answered with a value other than \<open>null\<close> and the
  upstream answers the \<open>PUT\<close> with the object it was sent, then the call with
  \<open>{name: "Test", active: true}\<close> returns a success envelope whose text is
  \<open>Workflow updated successfully. Changes: active: false -> true\<close> (with the arrow U+2192)
  and whose payload has \<open>active = true\<close>.
\<close>

theorem update_workflow_summary:
  "(\<forall>env w'. execute up args w = (env, w') \<and> \<not> isError env \<longrightarrow>
      (\<exists>workflows w1 workflow upd.
          getWorkflows up w = (Inr workflows, w1)
        \<and> find_workflow workflows (jsprop args ''name'') = Inr workflow
        \<and> updateWorkflow up (jsprop workflow ''id'')
              (workflowData workflow (jsprop args ''newName'') (jsprop args ''nodes'')
                 (jsprop args ''connections'') (jsprop args ''active'') (jsprop args ''tags'')) w1
            = (Inr upd, w')
        \<and> content env =
            [TextBlock (''Workflow updated successfully. '' @
               (let changes = map fst (filter snd
                      [(''name: '' @ dq @ to_string (jsprop workflow ''name'') @ dq @ '' '' @ arrow
                          @ '' '' @ dq @ to_string (jsprop args ''newName'') @ dq,
                        jsprop args ''newName'' \<noteq> JUndefined
                        \<and> \<not> strict_eq (jsprop args ''newName'') (jsprop workflow ''name'')),
                       (''active: '' @ to_string (jsprop workflow ''active'') @ '' '' @ arrow
                          @ '' '' @ to_string (jsprop args ''active''),
                        jsprop args ''active'' \<noteq> JUndefined
                        \<and> \<not> strict_eq (jsprop args ''active'') (jsprop workflow ''active'')),
                       (''nodes updated'', jsprop args ''nodes'' \<noteq> JUndefined),
                       (''connections updated'', jsprop args ''connections'' \<noteq> JUndefined),
                       (''tags updated'', jsprop args ''tags'' \<noteq> JUndefined)])
                in if changes = [] then ''No changes were made''
                   else ''Changes: '' @ join '', '' changes)),
             JsonBlock (JObj (fmap_of_list
               [(''id'', jsprop upd ''id''), (''name'', jsprop upd ''name''),
                (''active'', jsprop upd ''active'')]))]))
   \<and> (\<forall>st1 d s1 ws hit st2 cur s2.
        up \<lparr>meth = GET, url = ''/workflows'', body = None\<rparr> (remote w) = (Resolved st1 d, s1)
        \<and> jsprop d ''data'' = JArr ws \<and> (\<forall>x \<in> set ws. \<not> nullish x)
        \<and> List.find (\<lambda>x. jsprop x ''name'' = JStr ''Test'') ws = Some hit
        \<and> jsprop hit ''active'' = JBool False
        \<and> up \<lparr>meth = GET, url = ''/workflows/'' @ to_string (jsprop hit ''id''), body = None\<rparr> s1
             = (Resolved st2 cur, s2)
        \<and> \<not> nullish cur
        \<and> (\<forall>b. \<exists>st3 s3.
              up \<lparr>meth = PUT, url = ''/workflows/'' @ to_string (jsprop hit ''id''),
                  body = Some (JObj b)\<rparr> s2 = (Resolved st3 (JObj b), s3))
       \<longrightarrow> (\<exists>payload w'.
              execute up (JObj (fmap_of_list [(''name'', JStr ''Test''), (''active'', JBool True)])) w
                = (\<lparr>content = [TextBlock (''Workflow updated successfully. Changes: active: false ''
                                            @ arrow @ '' true''),
                                 JsonBlock payload],
                     isError = False\<rparr>, w')
            \<and> jsprop payload ''active'' = JBool True))"
proof (intro conjI allI impI)
  fix env w'
  assume "execute up args w = (env, w') \<and> \<not> isError env"
  then have "update_steps up args w = (Inr env, w')" by (simp add: execute_succeeded)
  from update_steps_returned [OF this] obtain workflows w1 hit upd
    where listed: "getWorkflows up w = (Inr workflows, w1)"
      and found: "find_workflow workflows (jsprop args ''name'') = Inr hit"
      and updated: "updateWorkflow up (jsprop hit ''id'')
              (workflowData hit (jsprop args ''newName'') (jsprop args ''nodes'')
                 (jsprop args ''connections'') (jsprop args ''active'') (jsprop args ''tags'')) w1
             = (Inr upd, w')"
      and env: "env = formatSuccess
               (JObj (fmap_of_list [(''id'', jsprop upd ''id''), (''name'', jsprop upd ''name''),
                                    (''active'', jsprop upd ''active'')]))
               (''Workflow updated successfully. ''
                  @ changesSummary (changesArray hit (jsprop args ''newName'') (jsprop args ''active'')
                      (jsprop args ''nodes'') (jsprop args ''connections'') (jsprop args ''tags'')))"
    by blast
  have summary: "content env =
            [TextBlock (''Workflow updated successfully. '' @
               (let changes = map fst (filter snd
                      [(''name: '' @ dq @ to_string (jsprop hit ''name'') @ dq @ '' '' @ arrow
                          @ '' '' @ dq @ to_string (jsprop args ''newName'') @ dq,
                        jsprop args ''newName'' \<noteq> JUndefined
                        \<and> \<not> strict_eq (jsprop args ''newName'') (jsprop hit ''name'')),
                       (''active: '' @ to_string (jsprop hit ''active'') @ '' '' @ arrow
                          @ '' '' @ to_string (jsprop args ''active''),
                        jsprop args ''active'' \<noteq> JUndefined
                        \<and> \<not> strict_eq (jsprop args ''active'') (jsprop hit ''active'')),
                       (''nodes updated'', jsprop args ''nodes'' \<noteq> JUndefined),
                       (''connections updated'', jsprop args ''connections'' \<noteq> JUndefined),
                       (''tags updated'', jsprop args ''tags'' \<noteq> JUndefined)])
                in if changes = [] then ''No changes were made''
                   else ''Changes: '' @ join '', '' changes)),
             JsonBlock (JObj (fmap_of_list
               [(''id'', jsprop upd ''id''), (''name'', jsprop upd ''name''),
                (''active'', jsprop upd ''active'')]))]"
    unfolding env formatSuccess_def changesArray_entries changesSummary_cases Let_def
    by (simp only: envelope.simps)
  show "\<exists>workflows w1 workflow upd.
          getWorkflows up w = (Inr workflows, w1)
        \<and> find_workflow workflows (jsprop args ''name'') = Inr workflow
        \<and> updateWorkflow up (jsprop workflow ''id'')
              (workflowData workflow (jsprop args ''newName'') (jsprop args ''nodes'')
                 (jsprop args ''connections'') (jsprop args ''active'') (jsprop args ''tags'')) w1
            = (Inr upd, w')
        \<and> content env =
            [TextBlock (''Workflow updated successfully. '' @
               (let changes = map fst (filter snd
                      [(''name: '' @ dq @ to_string (jsprop workflow ''name'') @ dq @ '' '' @ arrow
                          @ '' '' @ dq @ to_string (jsprop args ''newName'') @ dq,
                        jsprop args ''newName'' \<noteq> JUndefined
                        \<and> \<not> strict_eq (jsprop args ''newName'') (jsprop workflow ''name'')),
                       (''active: '' @ to_string (jsprop workflow ''active'') @ '' '' @ arrow
                          @ '' '' @ to_string (jsprop args ''active''),
                        jsprop args ''active'' \<noteq> JUndefined
                        \<and> \<not> strict_eq (jsprop args ''active'') (jsprop workflow ''active'')),
                       (''nodes updated'', jsprop args ''nodes'' \<noteq> JUndefined),
                       (''connections updated'', jsprop args ''connections'' \<noteq> JUndefined),
                       (''tags updated'', jsprop args ''tags'' \<noteq> JUndefined)])
                in if changes = [] then ''No changes were made''
                   else ''Changes: '' @ join '', '' changes)),
             JsonBlock (JObj (fmap_of_list
               [(''id'', jsprop upd ''id''), (''name'', jsprop upd ''name''),
                (''active'', jsprop upd ''active'')]))]"
    apply (rule exI [of _ workflows], rule exI [of _ w1], rule exI [of _ hit], rule exI [of _ upd])
    apply (intro conjI)
       apply (rule listed)
      apply (rule found)
     apply (rule updated)
    apply (rule summary)
    done
next
  fix st1 d s1 ws hit st2 cur s2
  let ?m = "fmap_of_list [(''name'', JStr ''Test''), (''active'', JBool True)]"
  assume h: "up \<lparr>meth = GET, url = ''/workflows'', body = None\<rparr> (remote w) = (Resolved st1 d, s1)
        \<and> jsprop d ''data'' = JArr ws \<and> (\<forall>x \<in> set ws. \<not> nullish x)
        \<and> List.find (\<lambda>x. jsprop x ''name'' = JStr ''Test'') ws = Some hit
        \<and> jsprop hit ''active'' = JBool False
        \<and> up \<lparr>meth = GET, url = ''/workflows/'' @ to_string (jsprop hit ''id''), body = None\<rparr> s1
             = (Resolved st2 cur, s2)
        \<and> \<not> nullish cur
        \<and> (\<forall>b. \<exists>st3 s3.
              up \<lparr>meth = PUT, url = ''/workflows/'' @ to_string (jsprop hit ''id''),
                  body = Some (JObj b)\<rparr> s2 = (Resolved st3 (JObj b), s3))"
  have name: "jsprop (JObj ?m) ''name'' = JStr ''Test''" by (simp add: fmlookup_of_list)
  have others: "jsprop (JObj ?m) ''newName'' = JUndefined" "jsprop (JObj ?m) ''nodes'' = JUndefined"
    "jsprop (JObj ?m) ''connections'' = JUndefined" "jsprop (JObj ?m) ''tags'' = JUndefined"
    "jsprop (JObj ?m) ''active'' = JBool True"
    by (simp_all add: fmlookup_of_list)
  have a1: "truthy (jsprop (JObj ?m) ''name'')" unfolding name by simp
  have a2: "\<not> (truthy (jsprop (JObj ?m) ''nodes'') \<and> \<not> isArray (jsprop (JObj ?m) ''nodes''))"
    unfolding others by simp
  have a3: "\<not> (truthy (jsprop (JObj ?m) ''connections'')
            \<and> typeof (jsprop (JObj ?m) ''connections'') \<noteq> ''object'')"
    unfolding others by simp
  from h have a4: "up \<lparr>meth = GET, url = ''/workflows'', body = None\<rparr> (remote w) = (Resolved st1 d, s1)"
    and a5: "jsprop d ''data'' = JArr ws" and a6: "\<forall>x \<in> set ws. \<not> nullish x"
    and a8: "up \<lparr>meth = GET, url = ''/workflows/'' @ to_string (jsprop hit ''id''), body = None\<rparr> s1
             = (Resolved st2 cur, s2)"
    and a9: "\<not> nullish cur" and old: "jsprop hit ''active'' = JBool False"
    by simp_all
  from h have a7: "List.find (\<lambda>x. strict_eq (jsprop x ''name'') (jsprop (JObj ?m) ''name'')) ws = Some hit"
    unfolding name strict_eq_JStr by simp
  from h have a10: "\<forall>b. \<exists>st3 upd s3.
           up \<lparr>meth = PUT, url = ''/workflows/'' @ to_string (jsprop hit ''id''),
               body = Some (JObj b)\<rparr> s2 = (Resolved st3 upd, s3)
           \<and> \<not> nullish upd
           \<and> (True \<longrightarrow> upd = JObj b)"
    by (metis nullish.simps(7))
  from execute_success_listed [where echo = True, OF a1 a2 a3 a4 a5 a6 a7 a8 a9 a10]
  obtain upd w' where run: "execute up (JObj ?m) w =
     (formatSuccess
        (JObj (fmap_of_list [(''id'', jsprop upd ''id''), (''name'', jsprop upd ''name''),
                             (''active'', jsprop upd ''active'')]))
        (''Workflow updated successfully. ''
           @ changesSummary (changesArray hit (jsprop (JObj ?m) ''newName'') (jsprop (JObj ?m) ''active'')
               (jsprop (JObj ?m) ''nodes'') (jsprop (JObj ?m) ''connections'')
               (jsprop (JObj ?m) ''tags''))), w')"
    and act: "jsprop upd ''active'' = jsprop (JObj ?m) ''active''"
    unfolding others by auto
  have summary: "changesSummary (changesArray hit (jsprop (JObj ?m) ''newName'') (jsprop (JObj ?m) ''active'')
               (jsprop (JObj ?m) ''nodes'') (jsprop (JObj ?m) ''connections'')
               (jsprop (JObj ?m) ''tags''))
      = ''Changes: active: false '' @ arrow @ '' true''"
    unfolding others by (simp add: changesArray_def changesSummary_def old)
  show "\<exists>payload w'.
              execute up (JObj ?m) w
                = (\<lparr>content = [TextBlock (''Workflow updated successfully. Changes: active: false ''
                                            @ arrow @ '' true''),
                                 JsonBlock payload],
                     isError = False\<rparr>, w')
            \<and> jsprop payload ''active'' = JBool True"
    unfolding run summary formatSuccess_def
    apply (intro exI conjI)
     apply simp
    apply (simp add: fmlookup_of_list act others)
    done
qed

theorem update_workflow_summary_witness:
  "fst (execute stub_upstream
          (JObj (fmap_of_list [(''name'', JStr ''Test''), (''active'', JBool True)])) start)
     = \<lparr>content = [TextBlock (''Workflow updated successfully. Changes: active: false ''
                                @ arrow @ '' true''),
                     JsonBlock (JObj (fmap_of_list [(''id'', JStr ''w1''), (''name'', JStr ''Test''),
                                                    (''active'', JBool True)]))],
          isError = False\<rparr>"
  using update_workflow_summary [of stub_upstream
          "JObj (fmap_of_list [(''name'', JStr ''Test''), (''active'', JBool True)])" start]
  by (simp add: run_defs)

text \<open>
  C2 as stated fails: the stored workflow has \<open>nodes = []\<close> and the call supplies
  \<open>nodes = []\<close>, the same value, yet the summary lists \<open>nodes updated\<close>.
\<close>

theorem update_workflow_summary_counterexample:
  "content (fst (execute stub_upstream
       (JObj (fmap_of_list [(''name'', JStr ''Test''), (''nodes'', JArr [])])) start))
     = [TextBlock ''Workflow updated successfully. Changes: nodes updated'',
        JsonBlock (JObj (fmap_of_list [(''id'', JStr ''w1''), (''name'', JStr ''Test''),
                                       (''active'', JBool False)]))]
   \<and> jsprop (JObj (fmap_of_list [(''name'', JStr ''Test''), (''nodes'', JArr [])])) ''nodes''
       = jsprop test_workflow ''nodes''"
  by (simp add: run_defs)

text \<open>
  C6, as amended. When the listing holds a first workflow named \<open>Test\<close>, its fetch is
  answered with a value other than \<open>null\<close> and so is the \<open>PUT\<close>, the call with
  \<open>{name: "Test"}\<close> and no other field returns a success envelope whose text is exactly
  \<open>Workflow updated successfully. No changes were made\<close>.
\<close>

theorem update_workflow_no_changes:
  assumes "up \<lparr>meth = GET, url = ''/workflows'', body = None\<rparr> (remote w) = (Resolved st1 d, s1)"
    and "jsprop d ''data'' = JArr ws" and "\<forall>x \<in> set ws. \<not> nullish x"
    and "List.find (\<lambda>x. jsprop x ''name'' = JStr ''Test'') ws = Some hit"
    and "up \<lparr>meth = GET, url = ''/workflows/'' @ to_string (jsprop hit ''id''), body = None\<rparr> s1
           = (Resolved st2 cur, s2)"
    and "\<not> nullish cur"
    and "\<forall>b. \<exists>st3 upd s3.
           up \<lparr>meth = PUT, url = ''/workflows/'' @ to_string (jsprop hit ''id''),
               body = Some (JObj b)\<rparr> s2 = (Resolved st3 upd, s3)
           \<and> \<not> nullish upd"
  shows "\<exists>payload w'.
           execute up (JObj (fmap_of_list [(''name'', JStr ''Test'')])) w
             = (\<lparr>content = [TextBlock ''Workflow updated successfully. No changes were made'',
                              JsonBlock payload],
                  isError = False\<rparr>, w')"
proof -
  let ?m = "fmap_of_list [(''name'', JStr ''Test'')]"
  have name: "jsprop (JObj ?m) ''name'' = JStr ''Test''" by (simp add: fmlookup_of_list)
  have others: "jsprop (JObj ?m) ''newName'' = JUndefined" "jsprop (JObj ?m) ''nodes'' = JUndefined"
    "jsprop (JObj ?m) ''connections'' = JUndefined" "jsprop (JObj ?m) ''tags'' = JUndefined"
    "jsprop (JObj ?m) ''active'' = JUndefined"
    by (simp_all add: fmlookup_of_list)
  have a1: "truthy (jsprop (JObj ?m) ''name'')" unfolding name by simp
  have a2: "\<not> (truthy (jsprop (JObj ?m) ''nodes'') \<and> \<not> isArray (jsprop (JObj ?m) ''nodes''))"
    unfolding others by simp
  have a3: "\<not> (truthy (jsprop (JObj ?m) ''connections'')
            \<and> typeof (jsprop (JObj ?m) ''connections'') \<noteq> ''object'')"
    unfolding others by simp
  from assms(4)
  have a7: "List.find (\<lambda>x. strict_eq (jsprop x ''name'') (jsprop (JObj ?m) ''name'')) ws = Some hit"
    unfolding name strict_eq_JStr by simp
  from assms(7) have a10: "\<forall>b. \<exists>st3 upd s3.
           up \<lparr>meth = PUT, url = ''/workflows/'' @ to_string (jsprop hit ''id''),
               body = Some (JObj b)\<rparr> s2 = (Resolved st3 upd, s3)
           \<and> \<not> nullish upd
           \<and> (False \<longrightarrow> upd = JObj b)"
    by simp
  from execute_success_listed [where echo = False, OF a1 a2 a3 assms(1-3) a7 assms(5,6) a10]
  obtain upd w' where run: "execute up (JObj ?m) w =
     (formatSuccess
        (JObj (fmap_of_list [(''id'', jsprop upd ''id''), (''name'', jsprop upd ''name''),
                             (''active'', jsprop upd ''active'')]))
        (''Workflow updated successfully. ''
           @ changesSummary (changesArray hit (jsprop (JObj ?m) ''newName'') (jsprop (JObj ?m) ''active'')
               (jsprop (JObj ?m) ''nodes'') (jsprop (JObj ?m) ''connections'')
               (jsprop (JObj ?m) ''tags''))), w')"
    by auto
  have summary: "changesSummary (changesArray hit (jsprop (JObj ?m) ''newName'') (jsprop (JObj ?m) ''active'')
               (jsprop (JObj ?m) ''nodes'') (jsprop (JObj ?m) ''connections'')
               (jsprop (JObj ?m) ''tags''))
      = ''No changes were made''"
    unfolding others by (simp add: changesArray_def changesSummary_def)
  show ?thesis
    unfolding run summary formatSuccess_def by simp
qed

theorem update_workflow_no_changes_witness:
  "\<exists>payload w'.
     execute stub_upstream (JObj (fmap_of_list [(''name'', JStr ''Test'')])) start
       = (\<lparr>content = [TextBlock ''Workflow updated successfully. No changes were made'',
                        JsonBlock payload],
            isError = False\<rparr>, w')"
  using update_workflow_no_changes [where up = stub_upstream and w = start and ?st1.0 = 200
      and d = "JObj (fmap_of_list [(''data'', JArr [test_workflow])])" and ?s1.0 = "()"
      and ws = "[test_workflow]" and hit = test_workflow and ?st2.0 = 200 and cur = test_workflow
      and ?s2.0 = "()"]
  by (simp add: stub_upstream_def test_workflow_def start_def fmlookup_of_list)

text \<open>
  C6 as stated fails: the text of the envelope is not exactly \<open>No changes were made\<close>,
  it carries the prefix \<open>Workflow updated successfully. \<close>.
\<close>

theorem update_workflow_no_changes_counterexample:
  "content (fst (execute stub_upstream (JObj (fmap_of_list [(''name'', JStr ''Test'')])) start))
     = [TextBlock ''Workflow updated successfully. No changes were made'',
        JsonBlock (JObj (fmap_of_list [(''id'', JStr ''w1''), (''name'', JStr ''Test''),
                                       (''active'', JBool False)]))]
   \<and> ''Workflow updated successfully. No changes were made'' \<noteq> ''No changes were made''"
  by (simp add: run_defs)

end
